theory Spec2Isabelle
  imports Complex_Main
begin

section \<open>Errors and results\<close>

text \<open>
  Every Python exception the modules can raise is a value. A computation that may raise
  returns \<open>error + 'a\<close>, with \<open>Inl\<close> for the exception; \<open>bindE\<close> sequences two such
  computations and stops at the first exception, as the interpreter does.
\<close>

datatype error =
    AssertionError | TypeError | ZeroDivisionError | ValueError | RuntimeError | IndexError

definition bindE :: "error + 'a \<Rightarrow> ('a \<Rightarrow> error + 'b) \<Rightarrow> error + 'b" where
  "bindE r f = (case r of Inl e \<Rightarrow> Inl e | Inr x \<Rightarrow> f x)"

section \<open>Tensors of the framework\<close>

text \<open>
  The modules of \<^verbatim>\<open>layers.py\<close> only wire operations of the tensor framework together.
  A tensor is modelled by its shape and by a symbolic value: the term of framework
  operations that produced it. Floating-point contents are not computed. Learnable
  parameters are named by the number of the module instance (or parameter) that owns
  them, so that two applications of the same instance can be told from applications of
  two instances with equal configuration.
\<close>

datatype expr =
    InputT nat
  | ParamT nat
  | LinearT nat expr
  | LeakyReluT rat expr
  | DropoutT rat expr
  | LayerNormT nat expr
  | AttnT nat expr expr expr
  | AddT expr expr
  | RepeatT "nat list" expr
  | UnsqueezeT int expr
  | SqueezeT int expr
  | TransposeT int int expr
  | MatmulT expr expr
  | DivSqrtT expr nat
  | SoftmaxT int expr

record tensor =
  shape :: "nat list"
  val :: expr

text \<open>
  Module constructors allocate tensors and draw the number of the new instance from a
  counter. Both are state of the runtime, threaded through construction: the number of
  the next instance, and the number of elements the runtime can still allocate, which
  depends on the machine and is a parameter of every statement. A constructor takes the
  state and returns the module with the new state, or the exception it raised.
\<close>

record alloc =
  next_id :: nat
  free_elems :: nat

type_synonym 'a ctor = "alloc \<Rightarrow> error + ('a \<times> alloc)"

text \<open>
  \<^verbatim>\<open>torch.empty(sizes)\<close>, on Python integers: a size that does not fit a signed 64-bit
  integer is refused when the arguments are unpacked, a negative size is rejected, and
  the allocation fails when the number of elements does not fit or exceeds what is free.
\<close>

definition allocate :: "int list \<Rightarrow> alloc \<Rightarrow> error + alloc" where
  "allocate sizes s =
     (if list_ex (\<lambda>n. n < - (2 ^ 63) \<or> 2 ^ 63 \<le> n) sizes then Inl TypeError
      else if list_ex (\<lambda>n. n < 0) sizes then Inl RuntimeError
      else if 2 ^ 63 \<le> prod_list (map nat sizes) \<or> free_elems s < prod_list (map nat sizes)
      then Inl RuntimeError
      else Inr (s\<lparr>free_elems := free_elems s - prod_list (map nat sizes)\<rparr>))"

definition fresh :: "alloc \<Rightarrow> alloc" where
  "fresh s = s\<lparr>next_id := Suc (next_id s)\<rparr>"

subsection \<open>Framework modules used by the layers\<close>

text \<open>
  \<^verbatim>\<open>nn.Linear(i, o)\<close> allocates an \<open>o \<times> i\<close> weight and a bias of size \<open>o\<close>. Its
  forward pass maps a tensor of shape \<open>(*, i)\<close> to \<open>(*, o)\<close> and rejects any other
  trailing size.
\<close>

record Linear =
  linear_id :: nat
  in_features :: nat
  out_features :: nat

definition nn_Linear :: "int \<Rightarrow> int \<Rightarrow> Linear ctor" where
  "nn_Linear i o' s =
     bindE (allocate [o', i] s) (\<lambda>s1.
     bindE (allocate [o'] s1) (\<lambda>s2.
       Inr (\<lparr>linear_id = next_id s2, in_features = nat i, out_features = nat o'\<rparr>,
            fresh s2)))"

definition Linear_forward :: "Linear \<Rightarrow> tensor \<Rightarrow> error + tensor" where
  "Linear_forward l x =
     (if shape x = [] then Inl RuntimeError
      else if last (shape x) \<noteq> in_features l then Inl RuntimeError
      else Inr \<lparr>shape = butlast (shape x) @ [out_features l],
                val = LinearT (linear_id l) (val x)\<rparr>)"

text \<open>\<^verbatim>\<open>nn.Dropout(p)\<close> rejects a probability outside \<open>[0, 1]\<close>; it keeps the shape.\<close>

record Dropout =
  dropout_p :: rat

definition nn_Dropout :: "rat \<Rightarrow> error + Dropout" where
  "nn_Dropout p = (if p < 0 \<or> 1 < p then Inl ValueError else Inr \<lparr>dropout_p = p\<rparr>)"

definition Dropout_forward :: "Dropout \<Rightarrow> tensor \<Rightarrow> tensor" where
  "Dropout_forward d x = x\<lparr>val := DropoutT (dropout_p d) (val x)\<rparr>"

text \<open>\<^verbatim>\<open>F.leaky_relu(x, negative_slope)\<close> is elementwise.\<close>

definition leaky_relu :: "tensor \<Rightarrow> rat \<Rightarrow> tensor" where
  "leaky_relu x negative_slope = x\<lparr>val := LeakyReluT negative_slope (val x)\<rparr>"

text \<open>
  \<^verbatim>\<open>nn.LayerNorm(n)\<close> allocates a weight and a bias of size \<open>n\<close> and normalises over a
  trailing axis of exactly that size.
\<close>

record LayerNorm =
  layer_norm_id :: nat
  normalized_shape :: nat

definition nn_LayerNorm :: "int \<Rightarrow> LayerNorm ctor" where
  "nn_LayerNorm n s =
     bindE (allocate [n] s) (\<lambda>s1.
     bindE (allocate [n] s1) (\<lambda>s2.
       Inr (\<lparr>layer_norm_id = next_id s2, normalized_shape = nat n\<rparr>, fresh s2)))"

definition LayerNorm_forward :: "LayerNorm \<Rightarrow> tensor \<Rightarrow> error + tensor" where
  "LayerNorm_forward l x =
     (if shape x = [] then Inl RuntimeError
      else if last (shape x) \<noteq> normalized_shape l then Inl RuntimeError
      else Inr (x\<lparr>val := LayerNormT (layer_norm_id l) (val x)\<rparr>))"

text \<open>
  \<^verbatim>\<open>nn.MultiheadAttention(embed_dim, num_heads, batch_first=True)\<close>. The constructor
  wants positive sizes and a head count that divides the embedding dimension; it
  allocates the packed input projection (\<open>3E \<times> E\<close> with a bias of \<open>3E\<close>) and the output
  projection (\<open>E \<times> E\<close> with a bias of \<open>E\<close>). The forward pass, called with
  \<^verbatim>\<open>need_weights=False\<close>, takes a batched query \<open>(N, L, E)\<close> with key and value
  \<open>(N, S, E)\<close> or an unbatched query \<open>(L, E)\<close> with key and value \<open>(S, E)\<close>, and the
  attention output has the query's shape. A batched query swaps the first two axes of
  query and key before the shapes are checked, which a key with fewer than two axes does
  not survive. The projected key is viewed with the query's batch size, which fails for a
  key of another batch size unless the key set is empty.
\<close>

record MultiheadAttention =
  attention_id :: nat
  embed_dim :: nat
  num_heads :: nat

definition nn_MultiheadAttention :: "int \<Rightarrow> int \<Rightarrow> MultiheadAttention ctor" where
  "nn_MultiheadAttention e h s =
     (if e \<le> 0 \<or> h \<le> 0 then Inl ValueError
      else if (e div h) * h \<noteq> e then Inl AssertionError
      else
        bindE (allocate [3 * e, e] s) (\<lambda>s1.
        bindE (allocate [3 * e] s1) (\<lambda>s2.
        bindE (allocate [e, e] s2) (\<lambda>s3.
        bindE (allocate [e] s3) (\<lambda>s4.
          Inr (\<lparr>attention_id = next_id s4, embed_dim = nat e, num_heads = nat h\<rparr>,
               fresh s4))))))"

definition MultiheadAttention_forward ::
  "MultiheadAttention \<Rightarrow> tensor \<Rightarrow> tensor \<Rightarrow> tensor \<Rightarrow> error + tensor" where
  "MultiheadAttention_forward m query key value =
     (if length (shape query) = 3 then
        (if length (shape key) < 2 \<or> length (shape value) < 2 then Inl IndexError
         else if length (shape key) \<noteq> 3 \<or> length (shape value) \<noteq> 3 then Inl AssertionError
         else if shape query ! 2 \<noteq> embed_dim m then Inl AssertionError
         else if shape key \<noteq> shape value then Inl AssertionError
         else if shape key ! 2 \<noteq> embed_dim m then Inl RuntimeError
         else if shape key ! 0 \<noteq> shape query ! 0 \<and> shape key ! 1 \<noteq> 0 then Inl RuntimeError
         else Inr \<lparr>shape = shape query,
                   val = AttnT (attention_id m) (val query) (val key) (val value)\<rparr>)
      else if length (shape query) = 2 then
        (if length (shape key) \<noteq> 2 \<or> length (shape value) \<noteq> 2 then Inl AssertionError
         else if shape query ! 1 \<noteq> embed_dim m then Inl AssertionError
         else if shape key \<noteq> shape value then Inl AssertionError
         else if shape key ! 1 \<noteq> embed_dim m then Inl RuntimeError
         else Inr \<lparr>shape = shape query,
                   val = AttnT (attention_id m) (val query) (val key) (val value)\<rparr>)
      else Inl AssertionError)"

subsection \<open>Framework operations on tensors\<close>

text \<open>
  Broadcasting aligns two shapes at their trailing axes; two sizes agree when they are
  equal or one of them is 1. \<open>broadcast_rev\<close> works on the reversed shapes.
\<close>

fun broadcast_rev :: "nat list \<Rightarrow> nat list \<Rightarrow> error + nat list" where
  "broadcast_rev [] ys = Inr ys"
| "broadcast_rev (x # xs) [] = Inr (x # xs)"
| "broadcast_rev (x # xs) (y # ys) =
     (if x = y \<or> x = 1 \<or> y = 1
      then (case broadcast_rev xs ys of
              Inl e \<Rightarrow> Inl e
            | Inr r \<Rightarrow> Inr ((if x = 1 then y else x) # r))
      else Inl RuntimeError)"

definition broadcast :: "nat list \<Rightarrow> nat list \<Rightarrow> error + nat list" where
  "broadcast a b =
     (case broadcast_rev (rev a) (rev b) of Inl e \<Rightarrow> Inl e | Inr r \<Rightarrow> Inr (rev r))"

definition torch_add :: "tensor \<Rightarrow> tensor \<Rightarrow> error + tensor" where
  "torch_add a b =
     (case broadcast (shape a) (shape b) of
        Inl e \<Rightarrow> Inl e
      | Inr s \<Rightarrow> Inr \<lparr>shape = s, val = AddT (val a) (val b)\<rparr>)"

text \<open>
  An axis argument \<open>d\<close> of a tensor with \<open>n\<close> axes is valid in \<open>[-n, n - 1]\<close>; negative
  axes count from the end. A tensor without axes accepts \<open>-1\<close> and \<open>0\<close> in \<open>squeeze\<close>
  and \<open>transpose\<close>, and no axis in \<open>size\<close>.
\<close>

definition wrap_dim :: "nat \<Rightarrow> int \<Rightarrow> error + nat" where
  "wrap_dim n d =
     (if - int n \<le> d \<and> d < int n then Inr (nat (if d < 0 then d + int n else d))
      else Inl IndexError)"

definition tensor_size :: "tensor \<Rightarrow> int \<Rightarrow> error + nat" where
  "tensor_size x d = bindE (wrap_dim (length (shape x)) d) (\<lambda>j. Inr (shape x ! j))"

definition tensor_repeat :: "tensor \<Rightarrow> nat list \<Rightarrow> error + tensor" where
  "tensor_repeat x sizes =
     (if length sizes < length (shape x) then Inl RuntimeError
      else Inr \<lparr>shape = map2 (*) sizes
                          (replicate (length sizes - length (shape x)) 1 @ shape x),
                val = RepeatT sizes (val x)\<rparr>)"

definition unsqueeze :: "tensor \<Rightarrow> int \<Rightarrow> error + tensor" where
  "unsqueeze x d =
     bindE (wrap_dim (length (shape x) + 1) d) (\<lambda>j.
       Inr \<lparr>shape = take j (shape x) @ [1] @ drop j (shape x), val = UnsqueezeT d (val x)\<rparr>)"

definition squeeze :: "tensor \<Rightarrow> int \<Rightarrow> error + tensor" where
  "squeeze x d =
     bindE (wrap_dim (max 1 (length (shape x))) d) (\<lambda>j.
       Inr \<lparr>shape = (if j < length (shape x) \<and> shape x ! j = 1
                     then take j (shape x) @ drop (Suc j) (shape x) else shape x),
            val = SqueezeT d (val x)\<rparr>)"

definition transpose_dims :: "tensor \<Rightarrow> int \<Rightarrow> int \<Rightarrow> error + tensor" where
  "transpose_dims x d0 d1 =
     bindE (wrap_dim (max 1 (length (shape x))) d0) (\<lambda>i.
     bindE (wrap_dim (max 1 (length (shape x))) d1) (\<lambda>j.
       Inr \<lparr>shape = (if shape x = [] then []
                     else (shape x)[i := shape x ! j, j := shape x ! i]),
            val = TransposeT d0 d1 (val x)\<rparr>))"

text \<open>
  \<^verbatim>\<open>torch.matmul\<close>: a one-axis operand is treated as a row (on the left) or a column (on
  the right) and the added axis is dropped from the result; the inner sizes must agree
  and the leading (batch) axes broadcast. Operands without axes are rejected.
\<close>

definition matmul :: "tensor \<Rightarrow> tensor \<Rightarrow> error + tensor" where
  "matmul a b =
     (if shape a = [] \<or> shape b = [] then Inl RuntimeError
      else
        let sa = (if length (shape a) = 1 then 1 # shape a else shape a);
            sb = (if length (shape b) = 1 then shape b @ [1] else shape b)
        in if last sa \<noteq> last (butlast sb) then Inl RuntimeError
           else bindE (broadcast (butlast (butlast sa)) (butlast (butlast sb))) (\<lambda>batch.
                  Inr \<lparr>shape = batch
                              @ (if length (shape a) = 1 then [] else [last (butlast sa)])
                              @ (if length (shape b) = 1 then [] else [last sb]),
                       val = MatmulT (val a) (val b)\<rparr>))"

text \<open>Division by the Python float \<^verbatim>\<open>math.sqrt(d)\<close>; dividing by \<open>0.0\<close> does not raise.\<close>

definition div_sqrt :: "tensor \<Rightarrow> nat \<Rightarrow> tensor" where
  "div_sqrt x d = x\<lparr>val := DivSqrtT (val x) d\<rparr>"

text \<open>
  \<^verbatim>\<open>torch.softmax(input, dim)\<close>: the axis is a required argument. \<open>None\<close> stands for a
  call that passes the input alone, which no signature of the function accepts.
\<close>

definition torch_softmax :: "tensor \<Rightarrow> int option \<Rightarrow> error + tensor" where
  "torch_softmax x dim_arg =
     (case dim_arg of
        None \<Rightarrow> Inl TypeError
      | Some d \<Rightarrow>
          bindE (wrap_dim (max 1 (length (shape x))) d) (\<lambda>j.
            Inr (x\<lparr>val := SoftmaxT d (val x)\<rparr>)))"

text \<open>
  \<^verbatim>\<open>nn.Parameter(torch.empty(*sizes))\<close> and \<^verbatim>\<open>nn.Parameter(torch.randn(*sizes))\<close>:
  the tensor is allocated and registered under a fresh number.
\<close>

definition new_parameter :: "int list \<Rightarrow> tensor ctor" where
  "new_parameter sizes s =
     bindE (allocate sizes s) (\<lambda>s1.
       Inr (\<lparr>shape = map nat sizes, val = ParamT (next_id s1)\<rparr>, fresh s1))"

text \<open>
  A Python callable that is called with one tensor: the framework's \<^verbatim>\<open>torch.softmax\<close>
  itself, or any function of one tensor.
\<close>

datatype callable = Torch_softmax | Function1 "tensor \<Rightarrow> error + tensor"

definition call1 :: "callable \<Rightarrow> tensor \<Rightarrow> error + tensor" where
  "call1 f x = (case f of Torch_softmax \<Rightarrow> torch_softmax x None | Function1 g \<Rightarrow> g x)"

section \<open>LinearNet\<close>

record LinearNet =
  final_linear :: bool
  leaky_relu_alpha :: rat
  LinearNet_dropout :: Dropout
  net :: "Linear list"

text \<open>
  The construction loop \<^verbatim>\<open>for i in range(len(layer_sizes) - 1)\<close>: the index list is
  empty when fewer than two sizes are given, and inside the loop both \<open>i\<close> and \<open>i + 1\<close>
  are in range.
\<close>

fun LinearNet_init_loop ::
  "int list \<Rightarrow> nat list \<Rightarrow> Linear list \<Rightarrow> alloc \<Rightarrow> error + (Linear list \<times> alloc)" where
  "LinearNet_init_loop layer_sizes [] ls s = Inr (ls, s)"
| "LinearNet_init_loop layer_sizes (i # is) ls s =
     (case nn_Linear (layer_sizes ! i) (layer_sizes ! (i + 1)) s of
        Inl e \<Rightarrow> Inl e
      | Inr (lin, s') \<Rightarrow> LinearNet_init_loop layer_sizes is (ls @ [lin]) s')"

definition LinearNet_init :: "int list \<Rightarrow> rat \<Rightarrow> rat \<Rightarrow> bool \<Rightarrow> LinearNet ctor" where
  "LinearNet_init layer_sizes alpha dropout_prob fl s =
     (case nn_Dropout dropout_prob of
        Inl e \<Rightarrow> Inl e
      | Inr d \<Rightarrow>
          (case LinearNet_init_loop layer_sizes
                  [0 ..< nat (int (length layer_sizes) - 1)] [] s of
             Inl e \<Rightarrow> Inl e
           | Inr (ls, s') \<Rightarrow>
               Inr (\<lparr>final_linear = fl, leaky_relu_alpha = alpha,
                     LinearNet_dropout = d, net = ls\<rparr>, s')))"

text \<open>
  The forward loop \<^verbatim>\<open>for i in range(len(self.net))\<close>. The test
  \<^verbatim>\<open>i != len(self.net) - 1\<close> is on Python integers.
\<close>

fun LinearNet_forward_loop :: "LinearNet \<Rightarrow> nat list \<Rightarrow> tensor \<Rightarrow> error + tensor" where
  "LinearNet_forward_loop m [] x = Inr x"
| "LinearNet_forward_loop m (i # is) x =
     bindE (Linear_forward (net m ! i) x) (\<lambda>x.
       let x = (if int i \<noteq> int (length (net m)) - 1 \<or> \<not> final_linear m
                then leaky_relu x (leaky_relu_alpha m) else x);
           x = Dropout_forward (LinearNet_dropout m) x
       in LinearNet_forward_loop m is x)"

definition LinearNet_forward :: "LinearNet \<Rightarrow> tensor \<Rightarrow> error + tensor" where
  "LinearNet_forward m x = LinearNet_forward_loop m [0 ..< length (net m)] x"

section \<open>Attention\<close>

record Attention =
  Attention_activation_function :: callable

definition Attention_init :: "callable \<Rightarrow> Attention" where
  "Attention_init activation_function = \<lparr>Attention_activation_function = activation_function\<rparr>"

definition Attention_forward :: "Attention \<Rightarrow> tensor \<Rightarrow> tensor \<Rightarrow> tensor \<Rightarrow> error + tensor" where
  "Attention_forward m Q K V =
     bindE (tensor_size Q (- 1)) (\<lambda>d.
     bindE (transpose_dims K (- 2) (- 1)) (\<lambda>Kt.
     bindE (matmul Q Kt) (\<lambda>QK.
     let logits = div_sqrt QK d in
     bindE (call1 (Attention_activation_function m) logits) (\<lambda>logits.
     matmul logits V))))"

section \<open>MAB\<close>

record MAB =
  MAB_activation_function :: callable
  attention :: MultiheadAttention
  layer_norm :: "LayerNorm option"
  feedforward :: LinearNet
  MAB_dropout :: Dropout

text \<open>
  \<open>ff_layers\<close> is \<open>None\<close> when the caller leaves the default. The assertion evaluates
  \<^verbatim>\<open>embed_dim % num_heads\<close> on Python integers, which raises for a zero divisor; the
  list concatenation of line 52 is evaluated before \<^verbatim>\<open>LinearNet\<close> is called. The
  feed-forward stack takes \<^verbatim>\<open>LinearNet\<close>'s defaults for slope (0.2) and dropout (0).
\<close>

definition MAB_init ::
  "int \<Rightarrow> int \<Rightarrow> int list option \<Rightarrow> bool \<Rightarrow> callable \<Rightarrow> bool \<Rightarrow> rat \<Rightarrow> MAB ctor" where
  "MAB_init e h ff_layers fl activation_function use_layer_norm dropout_prob s =
     (if h = 0 then Inl ZeroDivisionError
      else if e mod h \<noteq> 0 then Inl AssertionError
      else
        bindE (nn_MultiheadAttention e h s) (\<lambda>(att, s1).
        bindE (if use_layer_norm then bindE (nn_LayerNorm e s1) (\<lambda>(l, s2). Inr (Some l, s2))
               else Inr (None, s1)) (\<lambda>(lno, s2).
        bindE (case ff_layers of
                 None \<Rightarrow> Inl TypeError
               | Some ls \<Rightarrow> LinearNet_init ([e] @ ls @ [e]) (2 / 10) 0 fl s2) (\<lambda>(ff, s3).
        bindE (nn_Dropout dropout_prob) (\<lambda>d.
          Inr (\<lparr>MAB_activation_function = activation_function, attention = att,
                layer_norm = lno, feedforward = ff, MAB_dropout = d\<rparr>, s3))))))"

definition MAB_forward :: "MAB \<Rightarrow> tensor \<Rightarrow> tensor \<Rightarrow> error + tensor" where
  "MAB_forward m X Y =
     bindE (MultiheadAttention_forward (attention m) X Y Y) (\<lambda>att.
     bindE (torch_add X att) (\<lambda>H.
     bindE (case layer_norm m of None \<Rightarrow> Inr H | Some l \<Rightarrow> LayerNorm_forward l H) (\<lambda>H.
     let H = Dropout_forward (MAB_dropout m) H in
     bindE (LinearNet_forward (feedforward m) H) (\<lambda>ff.
     bindE (torch_add H ff) (\<lambda>mab_out.
     bindE (case layer_norm m of
              None \<Rightarrow> Inr mab_out
            | Some l \<Rightarrow> LayerNorm_forward l mab_out) (\<lambda>mab_out.
     Inr (Dropout_forward (MAB_dropout m) mab_out)))))))"

text \<open>
  The keyword arguments \<^verbatim>\<open>**mab_args\<close> that \<^verbatim>\<open>PMA\<close>, \<^verbatim>\<open>ISAB\<close> and \<^verbatim>\<open>IPAB\<close> pass
  on to \<^verbatim>\<open>MAB\<close>: a keyword that is absent takes the default of \<^verbatim>\<open>MAB.__init__\<close>, and
  \<^verbatim>\<open>num_heads\<close> has none.
\<close>

record mab_args =
  arg_num_heads :: "int option"
  arg_ff_layers :: "int list option"
  arg_final_linear :: "bool option"
  arg_activation_function :: "callable option"
  arg_layer_norm :: "bool option"
  arg_dropout :: "rat option"

definition MAB_init_kwargs :: "int \<Rightarrow> mab_args \<Rightarrow> MAB ctor" where
  "MAB_init_kwargs e args s =
     (case arg_num_heads args of
        None \<Rightarrow> Inl TypeError
      | Some h \<Rightarrow>
          MAB_init e h (arg_ff_layers args)
            (case arg_final_linear args of None \<Rightarrow> True | Some b \<Rightarrow> b)
            (case arg_activation_function args of None \<Rightarrow> Torch_softmax | Some f \<Rightarrow> f)
            (case arg_layer_norm args of None \<Rightarrow> False | Some b \<Rightarrow> b)
            (case arg_dropout args of None \<Rightarrow> 1 / 10 | Some q \<Rightarrow> q) s)"

section \<open>PMA\<close>

record PMA =
  seed_count :: int
  PMA_mab :: MAB
  PMA_S :: tensor

definition PMA_init :: "int \<Rightarrow> int \<Rightarrow> mab_args \<Rightarrow> PMA ctor" where
  "PMA_init embed_dims sc args s =
     bindE (MAB_init_kwargs embed_dims args s) (\<lambda>(mab, s1).
     bindE (new_parameter [1, sc, embed_dims] s1) (\<lambda>(S, s2).
       Inr (\<lparr>seed_count = sc, PMA_mab = mab, PMA_S = S\<rparr>, s2)))"

definition PMA_forward :: "PMA \<Rightarrow> tensor \<Rightarrow> error + tensor" where
  "PMA_forward m X =
     bindE (tensor_size X 0) (\<lambda>b.
     bindE (tensor_repeat (PMA_S m) [b, 1, 1]) (\<lambda>S.
     MAB_forward (PMA_mab m) S X))"

section \<open>ISAB\<close>

record ISAB =
  ISAB_m :: int
  ISAB_mab1 :: MAB
  ISAB_mab2 :: MAB
  ISAB_I :: tensor

definition ISAB_init :: "int \<Rightarrow> int \<Rightarrow> mab_args \<Rightarrow> ISAB ctor" where
  "ISAB_init m_induce e args s =
     bindE (MAB_init_kwargs e args s) (\<lambda>(mab1, s1).
     bindE (MAB_init_kwargs e args s1) (\<lambda>(mab2, s2).
     bindE (new_parameter [m_induce, e] s2) (\<lambda>(I, s3).
       Inr (\<lparr>ISAB_m = m_induce, ISAB_mab1 = mab1, ISAB_mab2 = mab2, ISAB_I = I\<rparr>, s3))))"

definition ISAB_forward :: "ISAB \<Rightarrow> tensor \<Rightarrow> error + tensor" where
  "ISAB_forward m X =
     bindE (MAB_forward (ISAB_mab1 m) (ISAB_I m) X) (\<lambda>H.
     MAB_forward (ISAB_mab2 m) X H)"

section \<open>IPAB\<close>

record IPAB =
  IPAB_embed_dim :: int
  IPAB_mab1 :: MAB
  IPAB_mab2 :: MAB

definition IPAB_init :: "int \<Rightarrow> mab_args \<Rightarrow> IPAB ctor" where
  "IPAB_init e args s =
     bindE (MAB_init_kwargs e args s) (\<lambda>(mab1, s1).
     bindE (MAB_init_kwargs e args s1) (\<lambda>(mab2, s2).
       Inr (\<lparr>IPAB_embed_dim = e, IPAB_mab1 = mab1, IPAB_mab2 = mab2\<rparr>, s2)))"

definition IPAB_forward :: "IPAB \<Rightarrow> tensor \<Rightarrow> tensor \<Rightarrow> error + (tensor \<times> tensor)" where
  "IPAB_forward m X Z =
     bindE (unsqueeze Z 1) (\<lambda>Zu.
     bindE (MAB_forward (IPAB_mab1 m) Zu X) (\<lambda>Z.
     bindE (MAB_forward (IPAB_mab2 m) X Z) (\<lambda>out.
     bindE (squeeze Z 1) (\<lambda>Zs.
       Inr (out, Zs)))))"

text \<open>
  The recurrent use: \<open>k\<close> calls with the same \<open>X\<close>, each fed the latent vector the
  previous call returned. The result is the last latent vector.
\<close>

fun IPAB_chain :: "IPAB \<Rightarrow> tensor \<Rightarrow> nat \<Rightarrow> tensor \<Rightarrow> error + tensor" where
  "IPAB_chain m X 0 Z = Inr Z"
| "IPAB_chain m X (Suc k) Z =
     bindE (IPAB_forward m X Z) (\<lambda>(out, Z'). IPAB_chain m X k Z')"

section \<open>Descriptions used in the statements\<close>

text \<open>
  The affine layers that the construction loop allocates for a width list: one per
  adjacent pair of widths, numbered consecutively from the counter.
\<close>

fun linears_from :: "int list \<Rightarrow> nat \<Rightarrow> Linear list" where
  "linears_from (a # b # ws) s =
     \<lparr>linear_id = s, in_features = nat a, out_features = nat b\<rparr> # linears_from (b # ws) (Suc s)"
| "linears_from ws s = []"

text \<open>
  The Dense Stack as the specification words it: each transform in order, after every
  transform but optionally the last the leaky nonlinearity, then dropout.
\<close>

fun Dense_Stack_spec :: "bool \<Rightarrow> rat \<Rightarrow> Dropout \<Rightarrow> Linear list \<Rightarrow> tensor \<Rightarrow> error + tensor" where
  "Dense_Stack_spec fl a d [] x = Inr x"
| "Dense_Stack_spec fl a d (l # ls) x =
     bindE (Linear_forward l x) (\<lambda>y.
       Dense_Stack_spec fl a d ls
         (Dropout_forward d (if ls = [] \<and> fl then y else leaky_relu y a)))"

text \<open>
  A list of affine layers fits an input width when each layer takes what its predecessor
  produces; the result is the width the last layer produces.
\<close>

fun chained :: "nat \<Rightarrow> Linear list \<Rightarrow> nat option" where
  "chained n [] = Some n"
| "chained n (l # ls) = (if in_features l = n then chained (out_features l) ls else None)"

text \<open>
  The symbolic value of the Dense Stack on the layers numbered \<open>is\<close>: the nonlinearity
  follows every transform except the last one when \<open>fl\<close> is set, dropout follows all.
\<close>

fun dense_expr :: "bool \<Rightarrow> rat \<Rightarrow> rat \<Rightarrow> nat list \<Rightarrow> expr \<Rightarrow> expr" where
  "dense_expr fl a p [] e = e"
| "dense_expr fl a p (i # is) e =
     dense_expr fl a p is
       (DropoutT p (if is = [] \<and> fl then LinearT i e else LeakyReluT a (LinearT i e)))"

text \<open>Erasing every leaky nonlinearity from a symbolic value.\<close>

fun strip_leaky :: "expr \<Rightarrow> expr" where
  "strip_leaky (InputT n) = InputT n"
| "strip_leaky (ParamT n) = ParamT n"
| "strip_leaky (LinearT i e) = LinearT i (strip_leaky e)"
| "strip_leaky (LeakyReluT a e) = strip_leaky e"
| "strip_leaky (DropoutT p e) = DropoutT p (strip_leaky e)"
| "strip_leaky (LayerNormT i e) = LayerNormT i (strip_leaky e)"
| "strip_leaky (AttnT i q k v) = AttnT i (strip_leaky q) (strip_leaky k) (strip_leaky v)"
| "strip_leaky (AddT a b) = AddT (strip_leaky a) (strip_leaky b)"
| "strip_leaky (RepeatT ns e) = RepeatT ns (strip_leaky e)"
| "strip_leaky (UnsqueezeT d e) = UnsqueezeT d (strip_leaky e)"
| "strip_leaky (SqueezeT d e) = SqueezeT d (strip_leaky e)"
| "strip_leaky (TransposeT d0 d1 e) = TransposeT d0 d1 (strip_leaky e)"
| "strip_leaky (MatmulT a b) = MatmulT (strip_leaky a) (strip_leaky b)"
| "strip_leaky (DivSqrtT e d) = DivSqrtT (strip_leaky e) d"
| "strip_leaky (SoftmaxT d e) = SoftmaxT d (strip_leaky e)"

text \<open>
  Layer normalisation when the block has it: the value is wrapped by the application of
  the block's normalisation instance, or left as it is.
\<close>

definition norm_value :: "LayerNorm option \<Rightarrow> expr \<Rightarrow> expr" where
  "norm_value lno e = (case lno of None \<Rightarrow> e | Some l \<Rightarrow> LayerNormT (layer_norm_id l) e)"

text \<open>The symbolic value of a Dense Stack applied to a value.\<close>

definition FeedForward_value :: "LinearNet \<Rightarrow> expr \<Rightarrow> expr" where
  "FeedForward_value ff e =
     dense_expr (final_linear ff) (leaky_relu_alpha ff) (dropout_p (LinearNet_dropout ff))
       (map linear_id (net ff)) e"

text \<open>
  The attention block as the specification words it: attention of \<open>x\<close> over \<open>y\<close>,
  residual, optional normalisation, dropout; then the feed-forward stack, residual,
  optional normalisation, dropout.
\<close>

definition MAB_value :: "MAB \<Rightarrow> expr \<Rightarrow> expr \<Rightarrow> expr" where
  "MAB_value m x y =
     (let A = AttnT (attention_id (attention m)) x y y;
          H = DropoutT (dropout_p (MAB_dropout m)) (norm_value (layer_norm m) (AddT x A));
          out = norm_value (layer_norm m) (AddT H (FeedForward_value (feedforward m) H))
      in DropoutT (dropout_p (MAB_dropout m)) out)"

text \<open>
  The sub-modules of a block agree on the embedding dimension \<open>E\<close>: attention and
  normalisation work on \<open>E\<close>, and the feed-forward stack maps \<open>E\<close> back to \<open>E\<close>.
\<close>

definition MAB_ok :: "nat \<Rightarrow> MAB \<Rightarrow> bool" where
  "MAB_ok E m =
     (embed_dim (attention m) = E \<and>
      (case layer_norm m of None \<Rightarrow> True | Some l \<Rightarrow> normalized_shape l = E) \<and>
      chained E (net (feedforward m)) = Some E)"

text \<open>The normalisation instances that are applied anywhere in a symbolic value.\<close>

fun layer_norm_ids :: "expr \<Rightarrow> nat set" where
  "layer_norm_ids (InputT n) = {}"
| "layer_norm_ids (ParamT n) = {}"
| "layer_norm_ids (LinearT i e) = layer_norm_ids e"
| "layer_norm_ids (LeakyReluT a e) = layer_norm_ids e"
| "layer_norm_ids (DropoutT p e) = layer_norm_ids e"
| "layer_norm_ids (LayerNormT i e) = insert i (layer_norm_ids e)"
| "layer_norm_ids (AttnT i q k v) = layer_norm_ids q \<union> layer_norm_ids k \<union> layer_norm_ids v"
| "layer_norm_ids (AddT a b) = layer_norm_ids a \<union> layer_norm_ids b"
| "layer_norm_ids (RepeatT ns e) = layer_norm_ids e"
| "layer_norm_ids (UnsqueezeT d e) = layer_norm_ids e"
| "layer_norm_ids (SqueezeT d e) = layer_norm_ids e"
| "layer_norm_ids (TransposeT d0 d1 e) = layer_norm_ids e"
| "layer_norm_ids (MatmulT a b) = layer_norm_ids a \<union> layer_norm_ids b"
| "layer_norm_ids (DivSqrtT e d) = layer_norm_ids e"
| "layer_norm_ids (SoftmaxT d e) = layer_norm_ids e"

section \<open>Properties\<close>

subsection \<open>Sequencing\<close>

lemma bindE_Inr [simp]: "bindE (Inr x) f = f x"
  by (simp add: bindE_def)

lemma bindE_Inl [simp]: "bindE (Inl e) f = Inl e"
  by (simp add: bindE_def)

lemma length_linears_from: "length (linears_from ws s) = length ws - 1"
  by (induction ws s rule: linears_from.induct) auto

lemma LinearNet_forward_loop_eq:
  "k \<le> length (net m) \<Longrightarrow>
   LinearNet_forward_loop m [k ..< length (net m)] x =
     Dense_Stack_spec (final_linear m) (leaky_relu_alpha m) (LinearNet_dropout m)
       (drop k (net m)) x"
proof (induction "length (net m) - k" arbitrary: k x)
  case 0
  then show ?case by simp
next
  case (Suc n)
  then have k: "k < length (net m)" by linarith
  have up: "[k ..< length (net m)] = k # [Suc k ..< length (net m)]"
    using k by (simp add: upt_conv_Cons)
  have d: "drop k (net m) = net m ! k # drop (Suc k) (net m)"
    using k by (simp add: Cons_nth_drop_Suc)
  have last_iff: "(int k \<noteq> int (length (net m)) - 1) = (drop (Suc k) (net m) \<noteq> [])"
    using k by auto
  have IH: "LinearNet_forward_loop m [Suc k ..< length (net m)] y =
     Dense_Stack_spec (final_linear m) (leaky_relu_alpha m) (LinearNet_dropout m)
       (drop (Suc k) (net m)) y" for y
    using Suc.hyps(1) [of "Suc k"] Suc.hyps(2) k by simp
  show ?case
    unfolding up d LinearNet_forward_loop.simps Dense_Stack_spec.simps Let_def IH last_iff
    by (rule arg_cong [where f = "bindE _"]) (auto simp: fun_eq_iff)
qed

lemma LinearNet_forward_refines:
  "LinearNet_forward m x =
     Dense_Stack_spec (final_linear m) (leaky_relu_alpha m) (LinearNet_dropout m) (net m) x"
  using LinearNet_forward_loop_eq [of 0 m x] by (simp add: LinearNet_forward_def)

lemma bindE_eq_Inr: "bindE r f = Inr y \<longleftrightarrow> (\<exists>x. r = Inr x \<and> f x = Inr y)"
  by (cases r) auto

lemma bindE_eq_Inl: "bindE r f = Inl e \<longleftrightarrow> r = Inl e \<or> (\<exists>x. r = Inr x \<and> f x = Inl e)"
  by (cases r) auto

lemma allocate_result: "allocate sizes s = Inr s' \<Longrightarrow> next_id s' = next_id s"
  by (auto simp: allocate_def split: if_splits)

lemma allocate_no_assertion: "allocate sizes s \<noteq> Inl AssertionError"
  by (simp add: allocate_def)

lemma nn_Linear_result:
  assumes "nn_Linear i o' s = Inr (l, s')"
  shows "l = \<lparr>linear_id = next_id s, in_features = nat i, out_features = nat o'\<rparr> \<and>
         next_id s' = Suc (next_id s)"
proof -
  from assms obtain s1 s2 where
    a: "allocate [o', i] s = Inr s1" and b: "allocate [o'] s1 = Inr s2"
    and r: "l = \<lparr>linear_id = next_id s2, in_features = nat i, out_features = nat o'\<rparr>"
      "s' = fresh s2"
    by (auto simp: nn_Linear_def bindE_eq_Inr)
  from allocate_result [OF a] allocate_result [OF b] r show ?thesis
    by (simp add: fresh_def)
qed

lemma nn_LayerNorm_result:
  assumes "nn_LayerNorm n s = Inr (l, s')"
  shows "l = \<lparr>layer_norm_id = next_id s, normalized_shape = nat n\<rparr> \<and>
         next_id s' = Suc (next_id s)"
proof -
  from assms obtain s1 s2 where
    a: "allocate [n] s = Inr s1" and b: "allocate [n] s1 = Inr s2"
    and r: "l = \<lparr>layer_norm_id = next_id s2, normalized_shape = nat n\<rparr>" "s' = fresh s2"
    by (auto simp: nn_LayerNorm_def bindE_eq_Inr)
  from allocate_result [OF a] allocate_result [OF b] r show ?thesis
    by (simp add: fresh_def)
qed

lemma nn_MultiheadAttention_result:
  assumes "nn_MultiheadAttention e h s = Inr (att, s')"
  shows "0 < e \<and> 0 < h \<and>
         att = \<lparr>attention_id = next_id s, embed_dim = nat e, num_heads = nat h\<rparr> \<and>
         next_id s' = Suc (next_id s)"
proof -
  from assms have pos: "0 < e" "0 < h"
    by (auto simp: nn_MultiheadAttention_def split: if_splits)
  with assms obtain s1 s2 s3 s4 where
    a: "allocate [3 * e, e] s = Inr s1" "allocate [3 * e] s1 = Inr s2"
       "allocate [e, e] s2 = Inr s3" "allocate [e] s3 = Inr s4"
    and r: "att = \<lparr>attention_id = next_id s4, embed_dim = nat e, num_heads = nat h\<rparr>"
      "s' = fresh s4"
    by (auto simp: nn_MultiheadAttention_def bindE_eq_Inr split: if_splits)
  from a have "next_id s4 = next_id s"
    by (simp add: allocate_result)
  with pos r show ?thesis
    by (simp add: fresh_def)
qed

lemma LinearNet_init_loop_result:
  "\<lbrakk>LinearNet_init_loop ws [k ..< n] ls s = Inr (r, s'); n = length ws - 1; k \<le> n\<rbrakk> \<Longrightarrow>
   r = ls @ linears_from (drop k ws) (next_id s)"
proof (induction "n - k" arbitrary: k ls s)
  case 0
  then have "k = length ws - 1" by simp
  moreover have "linears_from (drop (length ws - 1) ws) t = []" for t
    using length_linears_from [of "drop (length ws - 1) ws" t] by (cases ws) auto
  ultimately show ?case using 0 by simp
next
  case (Suc j)
  then have k: "Suc k < length ws" "k < n" by linarith+
  then have d: "drop k ws = ws ! k # ws ! Suc k # drop (Suc (Suc k)) ws"
    by (simp add: Cons_nth_drop_Suc)
  have d': "drop (Suc k) ws = ws ! Suc k # drop (Suc (Suc k)) ws"
    using k by (simp add: Cons_nth_drop_Suc)
  have up: "[k ..< n] = k # [Suc k ..< n]"
    using k by (simp add: upt_conv_Cons)
  from Suc.prems(1) obtain lin s1 where
    lin: "nn_Linear (ws ! k) (ws ! Suc k) s = Inr (lin, s1)"
    and step: "LinearNet_init_loop ws [Suc k ..< n] (ls @ [lin]) s1 = Inr (r, s')"
    unfolding up by (cases "nn_Linear (ws ! k) (ws ! Suc k) s") auto
  from nn_Linear_result [OF lin] have
    l: "lin = \<lparr>linear_id = next_id s, in_features = nat (ws ! k),
                out_features = nat (ws ! Suc k)\<rparr>"
    and n1: "next_id s1 = Suc (next_id s)"
    by simp_all
  have "r = (ls @ [lin]) @ linears_from (drop (Suc k) ws) (next_id s1)"
    using Suc.hyps(1) [OF _ step] Suc.hyps(2) Suc.prems(2) k by simp
  then show ?case
    using k by (simp add: d d' l n1)
qed

lemma LinearNet_init_result:
  assumes "LinearNet_init ws a p fl s = Inr (m, s')"
  shows "m = \<lparr>final_linear = fl, leaky_relu_alpha = a, LinearNet_dropout = \<lparr>dropout_p = p\<rparr>,
              net = linears_from ws (next_id s)\<rparr>"
proof -
  from assms obtain d r where
    d: "nn_Dropout p = Inr d" and
    l: "LinearNet_init_loop ws [0 ..< nat (int (length ws) - 1)] [] s = Inr (r, s')" and
    m: "m = \<lparr>final_linear = fl, leaky_relu_alpha = a, LinearNet_dropout = d, net = r\<rparr>"
    by (auto simp: LinearNet_init_def split: sum.splits)
  have n: "nat (int (length ws) - 1) = length ws - 1" by (simp add: nat_diff_distrib')
  have "r = linears_from ws (next_id s)"
    using LinearNet_init_loop_result [of ws 0 "length ws - 1" "[]" s r s'] l n by simp
  moreover have "d = \<lparr>dropout_p = p\<rparr>"
    using d by (simp add: nn_Dropout_def split: if_splits)
  ultimately show ?thesis using m by simp
qed

lemma chained_linears_from:
  "chained (nat a) (linears_from (a # ws) s) = Some (nat (last (a # ws)))"
  by (induction ws arbitrary: a s) auto

lemma linear_ids_linears_from:
  "map linear_id (linears_from ws s) = [s ..< s + (length ws - 1)]"
proof (induction ws s rule: linears_from.induct)
  case (1 a b ws s)
  have "[s ..< s + Suc (length ws)] = s # [Suc s ..< s + Suc (length ws)]"
    by (rule upt_conv_Cons) simp
  with 1 show ?case by simp
qed simp_all

lemma Dense_Stack_spec_chained:
  "\<lbrakk>chained n ls = Some w; shape x \<noteq> []; last (shape x) = n\<rbrakk> \<Longrightarrow>
   Dense_Stack_spec fl a d ls x =
     Inr \<lparr>shape = butlast (shape x) @ [w],
          val = dense_expr fl a (dropout_p d) (map linear_id ls) (val x)\<rparr>"
proof (induction ls arbitrary: n x)
  case Nil
  then have "butlast (shape x) @ [w] = shape x" by auto
  then show ?case using Nil by (cases x) simp
next
  case (Cons l ls)
  from Cons.prems have inl: "in_features l = n" and ch: "chained (out_features l) ls = Some w"
    by (auto split: if_splits)
  let ?y = "\<lparr>shape = butlast (shape x) @ [out_features l], val = LinearT (linear_id l) (val x)\<rparr>"
  let ?z = "Dropout_forward d (if ls = [] \<and> fl then ?y else leaky_relu ?y a)"
  have lf: "Linear_forward l x = Inr ?y"
    using Cons.prems inl by (simp add: Linear_forward_def)
  have sz: "shape ?z = butlast (shape x) @ [out_features l]"
    by (simp add: Dropout_forward_def leaky_relu_def)
  have "Dense_Stack_spec fl a d ls ?z =
     Inr \<lparr>shape = butlast (shape ?z) @ [w],
          val = dense_expr fl a (dropout_p d) (map linear_id ls) (val ?z)\<rparr>"
    by (rule Cons.IH [OF ch]) (simp_all add: sz)
  then show ?case
    by (simp add: lf sz Dropout_forward_def leaky_relu_def)
qed

lemma Dense_Stack_spec_val:
  "Dense_Stack_spec fl a d ls x = Inr y \<Longrightarrow>
   val y = dense_expr fl a (dropout_p d) (map linear_id ls) (val x)"
proof (induction ls arbitrary: x)
  case Nil
  then show ?case by simp
next
  case (Cons l ls)
  then obtain x' where lf: "Linear_forward l x = Inr x'"
    by (cases "Linear_forward l x") auto
  then have v: "val x' = LinearT (linear_id l) (val x)"
    by (auto simp: Linear_forward_def split: if_splits)
  from Cons.prems lf have
    "Dense_Stack_spec fl a d ls (Dropout_forward d (if ls = [] \<and> fl then x' else leaky_relu x' a)) = Inr y"
    by simp
  from Cons.IH [OF this] show ?case
    by (simp add: v Dropout_forward_def leaky_relu_def)
qed

lemma LinearNet_init_forward:
  assumes init: "LinearNet_init ws a p fl s = Inr (m, s')"
    and len: "2 \<le> length ws"
    and x: "shape x \<noteq> []" "int (last (shape x)) = hd ws"
  shows "LinearNet_forward m x =
           Inr \<lparr>shape = butlast (shape x) @ [nat (last ws)],
                val = dense_expr fl a p [next_id s ..< next_id s + (length ws - 1)] (val x)\<rparr>"
proof -
  from len obtain w ws' where ws: "ws = w # ws'" by (cases ws) auto
  have m: "m = \<lparr>final_linear = fl, leaky_relu_alpha = a,
                 LinearNet_dropout = \<lparr>dropout_p = p\<rparr>, net = linears_from ws (next_id s)\<rparr>"
    using LinearNet_init_result [OF init] .
  have ch: "chained (nat w) (linears_from ws (next_id s)) = Some (nat (last ws))"
    unfolding ws by (rule chained_linears_from)
  have lx: "last (shape x) = nat w"
    using x(2) ws by simp
  show ?thesis
    unfolding LinearNet_forward_refines
    using Dense_Stack_spec_chained [OF ch x(1) lx, of fl a "\<lparr>dropout_p = p\<rparr>"]
    by (simp add: m linear_ids_linears_from)
qed

lemma strip_leaky_dense_expr:
  "strip_leaky (dense_expr fl a p is e) =
     foldl (\<lambda>e i. DropoutT p (LinearT i e)) (strip_leaky e) is"
  by (induction "is" arbitrary: e) auto

lemma dense_expr_top_dropout:
  "is \<noteq> [] \<Longrightarrow> \<exists>e'. dense_expr fl a p is e = DropoutT p e'"
proof (induction "is" arbitrary: e)
  case Nil
  then show ?case by simp
next
  case (Cons i "is")
  then show ?case by (cases "is = []") auto
qed

text \<open>
  Claim C7. The forward pass of a constructed Dense Stack applies the affine transforms in
  order, each followed by the leaky nonlinearity except the last one when \<open>final_linear\<close>
  is set (this is \<open>dense_expr\<close>); with \<open>final_linear = True\<close> and widths \<open>[4, 8, 1]\<close>
  nothing but dropout follows the second transform.
\<close>

theorem LinearNet_forward_nonlinearity:
  "(LinearNet_init ws a p fl s = Inr (m, s') \<and> 2 \<le> length ws \<and>
      shape x \<noteq> [] \<and> int (last (shape x)) = hd ws \<longrightarrow>
    LinearNet_forward m x =
      Inr \<lparr>shape = butlast (shape x) @ [nat (last ws)],
           val = dense_expr fl a p [next_id s ..< next_id s + (length ws - 1)] (val x)\<rparr>) \<and>
   (LinearNet_init [4, 8, 1] a p True s = Inr (m', s'') \<and> shape x' = [b, 4] \<longrightarrow>
    LinearNet_forward m' x' =
      Inr \<lparr>shape = [b, 1],
           val = DropoutT p (LinearT (Suc (next_id s))
                   (DropoutT p (LeakyReluT a (LinearT (next_id s) (val x')))))\<rparr>)"
proof (intro conjI impI)
  assume "LinearNet_init ws a p fl s = Inr (m, s') \<and> 2 \<le> length ws \<and>
      shape x \<noteq> [] \<and> int (last (shape x)) = hd ws"
  then show "LinearNet_forward m x =
      Inr \<lparr>shape = butlast (shape x) @ [nat (last ws)],
           val = dense_expr fl a p [next_id s ..< next_id s + (length ws - 1)] (val x)\<rparr>"
    using LinearNet_init_forward by blast
next
  assume h: "LinearNet_init [4, 8, 1] a p True s = Inr (m', s'') \<and> shape x' = [b, 4]"
  have up: "[next_id s ..< next_id s + 2] = [next_id s, Suc (next_id s)]"
    by (simp add: upt_conv_Cons)
  from h LinearNet_init_forward [of "[4, 8, 1]" a p True s m' s'' x']
  show "LinearNet_forward m' x' =
      Inr \<lparr>shape = [b, 1],
           val = DropoutT p (LinearT (Suc (next_id s))
                   (DropoutT p (LeakyReluT a (LinearT (next_id s) (val x')))))\<rparr>"
    by (simp add: up)
qed

theorem LinearNet_forward_nonlinearity_witness:
  "(\<exists>s'. LinearNet_init [4, 8, 1] (1 / 5) 0 True \<lparr>next_id = 0, free_elems = 100000\<rparr> =
     Inr (\<lparr>final_linear = True, leaky_relu_alpha = 1 / 5,
           LinearNet_dropout = \<lparr>dropout_p = 0\<rparr>,
           net = [\<lparr>linear_id = 0, in_features = 4, out_features = 8\<rparr>,
                  \<lparr>linear_id = 1, in_features = 8, out_features = 1\<rparr>]\<rparr>, s')) \<and>
   LinearNet_forward
     \<lparr>final_linear = True, leaky_relu_alpha = 1 / 5,
      LinearNet_dropout = \<lparr>dropout_p = 0\<rparr>,
      net = [\<lparr>linear_id = 0, in_features = 4, out_features = 8\<rparr>,
             \<lparr>linear_id = 1, in_features = 8, out_features = 1\<rparr>]\<rparr>
     \<lparr>shape = [16, 4], val = InputT 0\<rparr> =
     Inr \<lparr>shape = [16, 1],
          val = DropoutT 0 (LinearT 1 (DropoutT 0 (LeakyReluT (1 / 5) (LinearT 0 (InputT 0)))))\<rparr>"
proof -
  let ?m = "\<lparr>final_linear = True, leaky_relu_alpha = 1 / 5,
           LinearNet_dropout = \<lparr>dropout_p = 0\<rparr>,
           net = [\<lparr>linear_id = 0, in_features = 4, out_features = 8\<rparr>,
                  \<lparr>linear_id = 1, in_features = 8, out_features = 1\<rparr>]\<rparr>"
  obtain s' where init: "LinearNet_init [4, 8, 1] (1 / 5) 0 True \<lparr>next_id = 0, free_elems = 100000\<rparr> = Inr (?m, s')"
    by (simp add: LinearNet_init_def nn_Dropout_def nn_Linear_def allocate_def fresh_def
        upt_conv_Cons)
  have up: "[0 ..< 2] = [0, Suc 0]"
    by (simp add: upt_conv_Cons)
  show ?thesis
    using init LinearNet_forward_nonlinearity
      [of "[4, 8, 1]" "1 / 5" 0 True "\<lparr>next_id = 0, free_elems = 100000\<rparr>" ?m s' "\<lparr>shape = [16, 4], val = InputT 0\<rparr>"]
    by (auto simp: up)
qed

text \<open>
  Claim C9. For every width list of length at least two and either setting of
  \<open>final_linear\<close>, dropout follows every affine transform: with the nonlinearities
  erased, the result is the alternation of transform and dropout, and the outermost
  operation is dropout, also when \<open>final_linear\<close> is set.
\<close>

theorem LinearNet_forward_dropout_every_transform:
  assumes "LinearNet_init ws a p fl s = Inr (m, s')" and "2 \<le> length ws"
    and "shape x \<noteq> []" and "int (last (shape x)) = hd ws"
  shows "\<exists>y e. LinearNet_forward m x = Inr y \<and>
           strip_leaky (val y) =
             foldl (\<lambda>e i. DropoutT p (LinearT i e)) (strip_leaky (val x))
               [next_id s ..< next_id s + (length ws - 1)] \<and>
           val y = DropoutT p e"
proof -
  have ne: "[next_id s ..< next_id s + (length ws - 1)] \<noteq> []"
    using assms(2) by simp
  obtain e where
    e: "dense_expr fl a p [next_id s ..< next_id s + (length ws - 1)] (val x) = DropoutT p e"
    using dense_expr_top_dropout [OF ne] by blast
  have "strip_leaky (DropoutT p e) =
          foldl (\<lambda>e i. DropoutT p (LinearT i e)) (strip_leaky (val x))
            [next_id s ..< next_id s + (length ws - 1)]"
    unfolding e [symmetric] by (rule strip_leaky_dense_expr)
  then show ?thesis
    using LinearNet_init_forward [OF assms] e by simp
qed

theorem LinearNet_forward_dropout_every_transform_witness:
  "\<exists>y e. LinearNet_forward
     \<lparr>final_linear = True, leaky_relu_alpha = 1 / 5,
      LinearNet_dropout = \<lparr>dropout_p = 1 / 2\<rparr>,
      net = [\<lparr>linear_id = 0, in_features = 4, out_features = 8\<rparr>,
             \<lparr>linear_id = 1, in_features = 8, out_features = 1\<rparr>]\<rparr>
     \<lparr>shape = [16, 4], val = InputT 0\<rparr> = Inr y \<and>
     strip_leaky (val y) = DropoutT (1 / 2) (LinearT 1 (DropoutT (1 / 2) (LinearT 0 (InputT 0)))) \<and>
     val y = DropoutT (1 / 2) e"
proof -
  let ?m = "\<lparr>final_linear = True, leaky_relu_alpha = 1 / 5,
           LinearNet_dropout = \<lparr>dropout_p = 1 / 2\<rparr>,
           net = [\<lparr>linear_id = 0, in_features = 4, out_features = 8\<rparr>,
                  \<lparr>linear_id = 1, in_features = 8, out_features = 1\<rparr>]\<rparr>"
  obtain s' where init: "LinearNet_init [4, 8, 1] (1 / 5) (1 / 2) True \<lparr>next_id = 0, free_elems = 100000\<rparr> = Inr (?m, s')"
    by (simp add: LinearNet_init_def nn_Dropout_def nn_Linear_def allocate_def fresh_def
        upt_conv_Cons)
  have up: "[0 ..< 2] = [0, Suc 0]"
    by (simp add: upt_conv_Cons)
  show ?thesis
    using LinearNet_forward_dropout_every_transform
      [OF init, of "\<lparr>shape = [16, 4], val = InputT 0\<rparr>"]
    by (simp add: up)
qed

subsection \<open>The attention block\<close>

lemma broadcast_rev_same: "broadcast_rev xs xs = Inr xs"
  by (induction xs) auto

lemma broadcast_same: "broadcast s s = Inr s"
  by (simp add: broadcast_def broadcast_rev_same)

lemma torch_add_same:
  "shape a = shape b \<Longrightarrow> torch_add a b = Inr \<lparr>shape = shape a, val = AddT (val a) (val b)\<rparr>"
  by (simp add: torch_add_def broadcast_same)

lemma norm_forward:
  "\<lbrakk>case lno of None \<Rightarrow> True | Some l \<Rightarrow> normalized_shape l = E;
    shape H \<noteq> []; last (shape H) = E\<rbrakk> \<Longrightarrow>
   (case lno of None \<Rightarrow> Inr H | Some l \<Rightarrow> LayerNorm_forward l H) =
     Inr \<lparr>shape = shape H, val = norm_value lno (val H)\<rparr>"
  by (cases H) (auto simp: LayerNorm_forward_def norm_value_def split: option.splits)

lemma MAB_forward_ok:
  assumes ok: "MAB_ok E m"
    and att: "MultiheadAttention_forward (attention m) X Y Y =
                Inr \<lparr>shape = shape X,
                     val = AttnT (attention_id (attention m)) (val X) (val Y) (val Y)\<rparr>"
    and X: "shape X \<noteq> []" "last (shape X) = E"
  shows "MAB_forward m X Y = Inr \<lparr>shape = shape X, val = MAB_value m (val X) (val Y)\<rparr>"
proof -
  let ?A = "AttnT (attention_id (attention m)) (val X) (val Y) (val Y)"
  let ?p = "dropout_p (MAB_dropout m)"
  let ?Ha = "\<lparr>shape = shape X, val = AddT (val X) ?A\<rparr>"
  let ?Hb = "\<lparr>shape = shape X, val = norm_value (layer_norm m) (AddT (val X) ?A)\<rparr>"
  let ?Hc = "\<lparr>shape = shape X, val = DropoutT ?p (norm_value (layer_norm m) (AddT (val X) ?A))\<rparr>"
  let ?F = "\<lparr>shape = shape X, val = FeedForward_value (feedforward m) (val ?Hc)\<rparr>"
  let ?Oa = "\<lparr>shape = shape X, val = AddT (val ?Hc) (val ?F)\<rparr>"
  let ?Ob = "\<lparr>shape = shape X, val = norm_value (layer_norm m) (AddT (val ?Hc) (val ?F))\<rparr>"
  from ok have lnok: "case layer_norm m of None \<Rightarrow> True | Some l \<Rightarrow> normalized_shape l = E"
    and ch: "chained E (net (feedforward m)) = Some E"
    by (simp_all add: MAB_ok_def)
  have bl: "butlast (shape X) @ [E] = shape X"
    using X by auto
  have a1: "torch_add X \<lparr>shape = shape X, val = ?A\<rparr> = Inr ?Ha"
    by (subst torch_add_same) simp_all
  have n1: "(case layer_norm m of None \<Rightarrow> Inr ?Ha | Some l \<Rightarrow> LayerNorm_forward l ?Ha) = Inr ?Hb"
    using norm_forward [OF lnok, of ?Ha] X by simp
  have d1: "Dropout_forward (MAB_dropout m) ?Hb = ?Hc"
    by (simp add: Dropout_forward_def)
  have ff: "LinearNet_forward (feedforward m) ?Hc = Inr ?F"
    unfolding LinearNet_forward_refines
    using Dense_Stack_spec_chained [OF ch, of ?Hc] X bl
    by (simp add: FeedForward_value_def)
  have a2: "torch_add ?Hc ?F = Inr ?Oa"
    by (subst torch_add_same) simp_all
  have n2: "(case layer_norm m of None \<Rightarrow> Inr ?Oa | Some l \<Rightarrow> LayerNorm_forward l ?Oa) = Inr ?Ob"
    using norm_forward [OF lnok, of ?Oa] X by simp
  have d2: "Dropout_forward (MAB_dropout m) ?Ob =
              \<lparr>shape = shape X, val = MAB_value m (val X) (val Y)\<rparr>"
    by (simp add: Dropout_forward_def MAB_value_def Let_def)
  show ?thesis
    unfolding MAB_forward_def att bindE_Inr a1 n1 Let_def d1 ff a2 n2 d2 ..
qed

lemma MultiheadAttention_forward_batched:
  "\<lbrakk>embed_dim a = E; shape X = [B, n, E]; shape Y = [B, k, E]\<rbrakk> \<Longrightarrow>
   MultiheadAttention_forward a X Y Y =
     Inr \<lparr>shape = shape X, val = AttnT (attention_id a) (val X) (val Y) (val Y)\<rparr>"
  by (simp add: MultiheadAttention_forward_def)

lemma MultiheadAttention_forward_unbatched:
  "\<lbrakk>embed_dim a = E; shape X = [n, E]; shape Y = [k, E]\<rbrakk> \<Longrightarrow>
   MultiheadAttention_forward a X Y Y =
     Inr \<lparr>shape = shape X, val = AttnT (attention_id a) (val X) (val Y) (val Y)\<rparr>"
  by (simp add: MultiheadAttention_forward_def)

lemma MAB_forward_batched:
  assumes "MAB_ok E m" "shape X = [B, n, E]" "shape Y = [B, k, E]"
  shows "MAB_forward m X Y = Inr \<lparr>shape = [B, n, E], val = MAB_value m (val X) (val Y)\<rparr>"
proof -
  have "embed_dim (attention m) = E" using assms(1) by (simp add: MAB_ok_def)
  from MultiheadAttention_forward_batched [OF this assms(2,3)]
  show ?thesis
    using MAB_forward_ok [OF assms(1), of X Y] assms(2) by simp
qed

lemma MAB_init_result:
  assumes "MAB_init e h ffl fl act use_ln dp s = Inr (m, s')"
  shows "h \<noteq> 0 \<and> e mod h = 0 \<and> 0 < e \<and> 0 < h \<and> (\<exists>ls. ffl = Some ls \<and>
     m = \<lparr>MAB_activation_function = act,
          attention = \<lparr>attention_id = next_id s, embed_dim = nat e, num_heads = nat h\<rparr>,
          layer_norm = (if use_ln
                        then Some \<lparr>layer_norm_id = Suc (next_id s), normalized_shape = nat e\<rparr>
                        else None),
          feedforward = \<lparr>final_linear = fl, leaky_relu_alpha = 2 / 10,
                         LinearNet_dropout = \<lparr>dropout_p = 0\<rparr>,
                         net = linears_from ([e] @ ls @ [e])
                                 (if use_ln then Suc (Suc (next_id s)) else Suc (next_id s))\<rparr>,
          MAB_dropout = \<lparr>dropout_p = dp\<rparr>\<rparr>)"
proof -
  let ?lno = "if use_ln then Some \<lparr>layer_norm_id = Suc (next_id s), normalized_shape = nat e\<rparr>
              else None"
  let ?n = "if use_ln then Suc (Suc (next_id s)) else Suc (next_id s)"
  from assms have h: "h \<noteq> 0" and dv: "e mod h = 0"
    by (auto simp: MAB_init_def split: if_splits)
  with assms obtain att s1 lno s2 ff s3 d where
    a: "nn_MultiheadAttention e h s = Inr (att, s1)"
    and l: "(if use_ln then bindE (nn_LayerNorm e s1) (\<lambda>(l, s2). Inr (Some l, s2))
             else Inr (None, s1)) = Inr (lno, s2)"
    and f: "(case ffl of None \<Rightarrow> Inl TypeError
             | Some ls \<Rightarrow> LinearNet_init ([e] @ ls @ [e]) (2 / 10) 0 fl s2) = Inr (ff, s3)"
    and d: "nn_Dropout dp = Inr d"
    and m: "m = \<lparr>MAB_activation_function = act, attention = att,
                 layer_norm = lno, feedforward = ff, MAB_dropout = d\<rparr>"
    by (auto simp: MAB_init_def bindE_eq_Inr simp del: append.simps)
  from nn_MultiheadAttention_result [OF a] have pos: "0 < e" "0 < h"
    and att: "att = \<lparr>attention_id = next_id s, embed_dim = nat e, num_heads = nat h\<rparr>"
    and n1: "next_id s1 = Suc (next_id s)"
    by simp_all
  have lno: "lno = ?lno \<and> next_id s2 = ?n"
  proof (cases use_ln)
    case True
    with l obtain l0 where "nn_LayerNorm e s1 = Inr (l0, s2)" "lno = Some l0"
      by (auto simp: bindE_eq_Inr)
    with nn_LayerNorm_result [of e s1 l0 s2] n1 True show ?thesis by simp
  next
    case False
    with l n1 show ?thesis by simp
  qed
  from f obtain ls where ls: "ffl = Some ls"
    and fi: "LinearNet_init ([e] @ ls @ [e]) (2 / 10) 0 fl s2 = Inr (ff, s3)"
    by (cases ffl) auto
  have "d = \<lparr>dropout_p = dp\<rparr>"
    using d by (simp add: nn_Dropout_def split: if_splits)
  with m att lno LinearNet_init_result [OF fi] ls h dv pos show ?thesis
    by simp
qed

lemma MAB_init_ok:
  assumes "MAB_init e h ffl fl act use_ln dp s = Inr (m, s')"
  shows "MAB_ok (nat e) m"
proof -
  from MAB_init_result [OF assms] obtain ls where
    m: "m = \<lparr>MAB_activation_function = act,
          attention = \<lparr>attention_id = next_id s, embed_dim = nat e, num_heads = nat h\<rparr>,
          layer_norm = (if use_ln
                        then Some \<lparr>layer_norm_id = Suc (next_id s), normalized_shape = nat e\<rparr>
                        else None),
          feedforward = \<lparr>final_linear = fl, leaky_relu_alpha = 2 / 10,
                         LinearNet_dropout = \<lparr>dropout_p = 0\<rparr>,
                         net = linears_from ([e] @ ls @ [e])
                                 (if use_ln then Suc (Suc (next_id s)) else Suc (next_id s))\<rparr>,
          MAB_dropout = \<lparr>dropout_p = dp\<rparr>\<rparr>"
    by blast
  have "chained (nat e) (linears_from (e # ls @ [e]) t) = Some (nat e)" for t
    using chained_linears_from [of e "ls @ [e]" t] by simp
  then show ?thesis
    by (simp add: m MAB_ok_def)
qed

lemma MAB_init_kwargs_ok:
  assumes "MAB_init_kwargs e args s = Inr (m, s')"
  shows "MAB_ok (nat e) m"
  using assms MAB_init_ok
  by (auto simp: MAB_init_kwargs_def split: option.splits)

lemma layer_norm_ids_dense_expr:
  "layer_norm_ids (dense_expr fl a p is e) = layer_norm_ids e"
  by (induction "is" arbitrary: e) auto

lemma MAB_feedforward_ok:
  assumes ok: "MAB_ok E m" and X: "shape H \<noteq> []" "last (shape H) = E"
  shows "LinearNet_forward (feedforward m) H =
           Inr \<lparr>shape = shape H, val = FeedForward_value (feedforward m) (val H)\<rparr>"
proof -
  from ok have ch: "chained E (net (feedforward m)) = Some E"
    by (simp add: MAB_ok_def)
  have bl: "butlast (shape H) @ [E] = shape H"
    using X by auto
  show ?thesis
    unfolding LinearNet_forward_refines
    using Dense_Stack_spec_chained [OF ch X] bl
    by (simp add: FeedForward_value_def)
qed

text \<open>
  Claim C4. For a constructed block and batched inputs \<open>X\<close> of shape \<open>(B, n, E)\<close> and
  \<open>Y\<close> of shape \<open>(B, k, E)\<close>, the forward pass computes the attention of \<open>X\<close> over
  \<open>Y\<close> (key and value both \<open>Y\<close>), adds \<open>X\<close>, normalises exactly when normalisation
  was enabled, applies dropout to get \<open>H\<close>; then adds to \<open>H\<close> the feed-forward stack's
  result \<open>F\<close> on \<open>H\<close>, normalises exactly when enabled and applies dropout. The output
  has the shape of \<open>X\<close>.
\<close>

theorem MAB_forward_computes:
  assumes init: "MAB_init e h ffl fl act use_ln dp s = Inr (m, s')"
    and X: "shape X = [B, n, nat e]" and Y: "shape Y = [B, k, nat e]"
  shows "(layer_norm m \<noteq> None) = use_ln \<and>
         (\<exists>H F.
            H = DropoutT dp (norm_value (layer_norm m)
                  (AddT (val X) (AttnT (attention_id (attention m)) (val X) (val Y) (val Y)))) \<and>
            LinearNet_forward (feedforward m) \<lparr>shape = shape X, val = H\<rparr> =
              Inr \<lparr>shape = shape X, val = F\<rparr> \<and>
            MAB_forward m X Y =
              Inr \<lparr>shape = shape X, val = DropoutT dp (norm_value (layer_norm m) (AddT H F))\<rparr>)"
proof -
  have ok: "MAB_ok (nat e) m"
    using init by (rule MAB_init_ok)
  from MAB_init_result [OF init] have
    ln: "layer_norm m =
           (if use_ln then Some \<lparr>layer_norm_id = Suc (next_id s), normalized_shape = nat e\<rparr>
            else None)"
    and dp: "MAB_dropout m = \<lparr>dropout_p = dp\<rparr>"
    by auto
  let ?H = "DropoutT dp (norm_value (layer_norm m)
              (AddT (val X) (AttnT (attention_id (attention m)) (val X) (val Y) (val Y))))"
  have ff: "LinearNet_forward (feedforward m) \<lparr>shape = shape X, val = ?H\<rparr> =
              Inr \<lparr>shape = shape X, val = FeedForward_value (feedforward m) ?H\<rparr>"
    using MAB_feedforward_ok [OF ok, of "\<lparr>shape = shape X, val = ?H\<rparr>"] X by simp
  have fw: "MAB_forward m X Y =
      Inr \<lparr>shape = shape X,
           val = DropoutT dp (norm_value (layer_norm m)
                   (AddT ?H (FeedForward_value (feedforward m) ?H)))\<rparr>"
    using MAB_forward_batched [OF ok X Y] X
    by (simp add: MAB_value_def Let_def dp)
  have "(layer_norm m \<noteq> None) = use_ln"
    by (simp add: ln)
  with ff fw show ?thesis by blast
qed

text \<open>
  Claim C10. In a block constructed with normalisation enabled, the normalisation after
  the attention residual and the one after the feed-forward residual are applications of
  the same instance \<open>l\<close>, the one the block holds; no other normalisation instance
  enters the output.
\<close>

theorem MAB_forward_shared_layer_norm:
  assumes init: "MAB_init e h ffl fl act True dp s = Inr (m, s')"
    and X: "shape X = [B, n, nat e]" and Y: "shape Y = [B, k, nat e]"
  shows "\<exists>l out A F.
           layer_norm m = Some l \<and> MAB_forward m X Y = Inr out \<and>
           val out = DropoutT dp (LayerNormT (layer_norm_id l)
                       (AddT (DropoutT dp (LayerNormT (layer_norm_id l) (AddT (val X) A))) F)) \<and>
           layer_norm_ids (val out) =
             insert (layer_norm_id l) (layer_norm_ids (val X) \<union> layer_norm_ids (val Y))"
proof -
  have ok: "MAB_ok (nat e) m"
    using init by (rule MAB_init_ok)
  let ?l = "\<lparr>layer_norm_id = Suc (next_id s), normalized_shape = nat e\<rparr>"
  from MAB_init_result [OF init] have
    ln: "layer_norm m = Some ?l" and dp: "MAB_dropout m = \<lparr>dropout_p = dp\<rparr>"
    by auto
  let ?A = "AttnT (attention_id (attention m)) (val X) (val Y) (val Y)"
  let ?H = "DropoutT dp (LayerNormT (Suc (next_id s)) (AddT (val X) ?A))"
  let ?F = "FeedForward_value (feedforward m) ?H"
  let ?out = "\<lparr>shape = [B, n, nat e],
               val = DropoutT dp (LayerNormT (Suc (next_id s)) (AddT ?H ?F))\<rparr>"
  have fw: "MAB_forward m X Y = Inr ?out"
    using MAB_forward_batched [OF ok X Y]
    by (simp add: MAB_value_def Let_def dp ln norm_value_def)
  have ids: "layer_norm_ids (val ?out) =
               insert (Suc (next_id s)) (layer_norm_ids (val X) \<union> layer_norm_ids (val Y))"
    by (auto simp: FeedForward_value_def layer_norm_ids_dense_expr)
  show ?thesis
    apply (rule exI [of _ ?l])
    apply (rule exI [of _ ?out])
    apply (rule exI [of _ ?A])
    apply (rule exI [of _ ?F])
    using fw ids ln by simp
qed

theorem MAB_forward_computes_witness:
  "\<exists>m s'. MAB_init 4 2 (Some []) True Torch_softmax True (1 / 10) \<lparr>next_id = 0, free_elems = 100000\<rparr> = Inr (m, s') \<and>
     (layer_norm m \<noteq> None) = True \<and>
     (\<exists>H F.
        H = DropoutT (1 / 10) (norm_value (layer_norm m)
              (AddT (InputT 0) (AttnT (attention_id (attention m)) (InputT 0) (InputT 1) (InputT 1)))) \<and>
        LinearNet_forward (feedforward m) \<lparr>shape = [2, 3, 4], val = H\<rparr> =
          Inr \<lparr>shape = [2, 3, 4], val = F\<rparr> \<and>
        MAB_forward m \<lparr>shape = [2, 3, 4], val = InputT 0\<rparr> \<lparr>shape = [2, 5, 4], val = InputT 1\<rparr> =
          Inr \<lparr>shape = [2, 3, 4],
               val = DropoutT (1 / 10) (norm_value (layer_norm m) (AddT H F))\<rparr>)"
proof -
  obtain m s' where
    init: "MAB_init 4 2 (Some []) True Torch_softmax True (1 / 10) \<lparr>next_id = 0, free_elems = 100000\<rparr> = Inr (m, s')"
    by (simp add: MAB_init_kwargs_def MAB_init_def nn_MultiheadAttention_def nn_LayerNorm_def
        nn_Dropout_def LinearNet_init_def nn_Linear_def new_parameter_def allocate_def
        fresh_def upt_conv_Cons)
  show ?thesis
    using init MAB_forward_computes [OF init,
        of "\<lparr>shape = [2, 3, 4], val = InputT 0\<rparr>" 2 3 "\<lparr>shape = [2, 5, 4], val = InputT 1\<rparr>" 5]
    by simp
qed

theorem MAB_forward_shared_layer_norm_witness:
  "\<exists>m s' l out A F.
     MAB_init 4 2 (Some []) True Torch_softmax True (1 / 10) \<lparr>next_id = 0, free_elems = 100000\<rparr> = Inr (m, s') \<and>
     layer_norm m = Some l \<and>
     MAB_forward m \<lparr>shape = [2, 3, 4], val = InputT 0\<rparr> \<lparr>shape = [2, 5, 4], val = InputT 1\<rparr> =
       Inr out \<and>
     val out = DropoutT (1 / 10) (LayerNormT (layer_norm_id l)
                 (AddT (DropoutT (1 / 10) (LayerNormT (layer_norm_id l) (AddT (InputT 0) A))) F)) \<and>
     layer_norm_ids (val out) = {layer_norm_id l}"
proof -
  obtain m s' where
    init: "MAB_init 4 2 (Some []) True Torch_softmax True (1 / 10) \<lparr>next_id = 0, free_elems = 100000\<rparr> = Inr (m, s')"
    by (simp add: MAB_init_kwargs_def MAB_init_def nn_MultiheadAttention_def nn_LayerNorm_def
        nn_Dropout_def LinearNet_init_def nn_Linear_def new_parameter_def allocate_def
        fresh_def upt_conv_Cons)
  show ?thesis
    using init MAB_forward_shared_layer_norm [OF init,
        of "\<lparr>shape = [2, 3, 4], val = InputT 0\<rparr>" 2 3 "\<lparr>shape = [2, 5, 4], val = InputT 1\<rparr>" 5]
    by auto
qed

text \<open>
  Claim C8. When the embedding dimension is divisible by the head count, constructing a
  block with \<open>ff_layers\<close> left at its default \<open>None\<close> raises: whenever the framework
  has constructed the attention layer (and the normalisation layer, when enabled) it is
  the \<open>TypeError\<close> of the list concatenation, and the same holds when the keyword is
  absent from the arguments passed on by an enclosing module.
\<close>

theorem MAB_init_default_ff_layers_raises:
  "e mod h = 0 \<longrightarrow>
     (\<exists>err. MAB_init e h None fl act use_ln dp s = Inl err) \<and>
     (nn_MultiheadAttention e h s = Inr (att, s1) \<and>
        (use_ln \<longrightarrow> nn_LayerNorm e s1 = Inr (l, s2)) \<longrightarrow>
      MAB_init e h None fl act use_ln dp s = Inl TypeError) \<and>
     (arg_ff_layers args = None \<longrightarrow> (\<exists>err. MAB_init_kwargs e args s = Inl err))"
proof (intro impI conjI)
  show none: "\<exists>err. MAB_init e h None fl act use_ln dp s = Inl err" for e h fl act use_ln dp s
    using MAB_init_result [of e h None fl act use_ln dp s]
    by (cases "MAB_init e h None fl act use_ln dp s") auto
  show "\<exists>err. MAB_init_kwargs e args s = Inl err" if "arg_ff_layers args = None"
    using that none by (auto simp: MAB_init_kwargs_def split: option.splits)
next
  assume dv: "e mod h = 0"
    and c: "nn_MultiheadAttention e h s = Inr (att, s1) \<and>
              (use_ln \<longrightarrow> nn_LayerNorm e s1 = Inr (l, s2))"
  from c nn_MultiheadAttention_result [of e h s att s1] have h: "h \<noteq> 0"
    by auto
  show "MAB_init e h None fl act use_ln dp s = Inl TypeError"
    unfolding MAB_init_def using dv h c by simp
qed

theorem MAB_init_default_ff_layers_raises_witness:
  "(10 :: int) mod 2 = 0 \<and>
   MAB_init 10 2 None True Torch_softmax False (1 / 10) \<lparr>next_id = 0, free_elems = 100000\<rparr> = Inl TypeError \<and>
   (\<exists>err. MAB_init_kwargs 10
      \<lparr>arg_num_heads = Some 2, arg_ff_layers = None, arg_final_linear = None,
       arg_activation_function = None, arg_layer_norm = None, arg_dropout = None\<rparr>
      \<lparr>next_id = 0, free_elems = 100000\<rparr> = Inl err)"
proof -
  obtain att s1 where a: "nn_MultiheadAttention 10 2 \<lparr>next_id = 0, free_elems = 100000\<rparr> = Inr (att, s1)"
    by (simp add: nn_MultiheadAttention_def allocate_def fresh_def)
  show ?thesis
    using a MAB_init_default_ff_layers_raises [of 10 2 True Torch_softmax False "1 / 10"
      "\<lparr>next_id = 0, free_elems = 100000\<rparr>" att s1 undefined undefined
      "\<lparr>arg_num_heads = Some 2, arg_ff_layers = None, arg_final_linear = None,
        arg_activation_function = None, arg_layer_norm = None, arg_dropout = None\<rparr>"]
    by simp
qed

lemma LinearNet_init_loop_no_assertion:
  "LinearNet_init_loop ws is ls s \<noteq> Inl AssertionError"
proof (induction "is" arbitrary: ls s)
  case Nil
  then show ?case by simp
next
  case (Cons i "is")
  have "nn_Linear (ws ! i) (ws ! (i + 1)) s \<noteq> Inl AssertionError"
    by (simp add: nn_Linear_def bindE_eq_Inl allocate_no_assertion)
  with Cons show ?case
    by (cases "nn_Linear (ws ! i) (ws ! (i + 1)) s") auto
qed

lemma LinearNet_init_no_assertion:
  "LinearNet_init ws a p fl s \<noteq> Inl AssertionError"
  using LinearNet_init_loop_no_assertion [of ws "[0 ..< nat (int (length ws) - 1)]" "[]" s]
  by (auto simp: LinearNet_init_def nn_Dropout_def split: sum.splits if_splits)

lemma MAB_init_assertion_iff:
  assumes "h \<noteq> 0"
  shows "(MAB_init e h ffl fl act use_ln dp s = Inl AssertionError) = (e mod h \<noteq> 0)"
proof (cases "e mod h = 0")
  case False
  with assms show ?thesis by (simp add: MAB_init_def)
next
  case True
  then have "h dvd e" by (simp add: mod_eq_0_iff_dvd)
  then have dm: "e div h * h = e" by simp
  have a: "nn_MultiheadAttention e h s \<noteq> Inl AssertionError"
    by (simp add: nn_MultiheadAttention_def dm bindE_eq_Inl allocate_no_assertion)
  have l: "(if use_ln then bindE (nn_LayerNorm e t) (\<lambda>(l, s2). Inr (Some l, s2))
            else Inr (None, t)) \<noteq> Inl AssertionError" for t
    by (simp add: nn_LayerNorm_def bindE_eq_Inl allocate_no_assertion)
  have f: "(case ffl of None \<Rightarrow> Inl TypeError
            | Some ls \<Rightarrow> LinearNet_init ([e] @ ls @ [e]) (2 / 10) 0 fl t) \<noteq> Inl AssertionError"
    for t
    using LinearNet_init_no_assertion by (cases ffl) simp_all
  have d: "nn_Dropout dp \<noteq> Inl AssertionError"
    by (simp add: nn_Dropout_def)
  have "MAB_init e h ffl fl act use_ln dp s \<noteq> Inl AssertionError"
    unfolding MAB_init_def using assms True a l f d
    by (auto simp: bindE_eq_Inl simp del: append.simps)
  with True show ?thesis by simp
qed

text \<open>
  Claim C1 does not hold of the code at the default arguments. The assertion itself is as
  claimed: construction raises the assertion error if and only if the embedding dimension
  is not divisible by the (non-zero) head count, so embed_dim 10 with num_heads 3 fails
  by the assertion. But constructing a block with embed_dim 10 and num_heads 2 and the
  other arguments left at their defaults does not succeed: it raises for every state of
  the runtime, and with room for the attention layer it is the \<open>TypeError\<close> of
  concatenating the default \<open>ff_layers = None\<close> to a list.
\<close>

theorem MAB_init_assertion_and_default:
  "(h \<noteq> 0 \<longrightarrow>
      (MAB_init e h ffl fl act use_ln dp s = Inl AssertionError) = (e mod h \<noteq> 0)) \<and>
   MAB_init 10 3 ffl fl act use_ln dp s = Inl AssertionError \<and>
   (\<exists>err. MAB_init 10 2 None True Torch_softmax False (1 / 10) s = Inl err) \<and>
   MAB_init 10 2 None True Torch_softmax False (1 / 10) \<lparr>next_id = 0, free_elems = 100000\<rparr> = Inl TypeError"
proof (intro conjI impI)
  show "(MAB_init e h ffl fl act use_ln dp s = Inl AssertionError) = (e mod h \<noteq> 0)"
    if "h \<noteq> 0"
    using that by (rule MAB_init_assertion_iff)
  show "MAB_init 10 3 ffl fl act use_ln dp s = Inl AssertionError"
    by (simp add: MAB_init_def)
  show "\<exists>err. MAB_init 10 2 None True Torch_softmax False (1 / 10) s = Inl err"
    using MAB_init_result [of 10 2 None True Torch_softmax False "1 / 10" s]
    by (cases "MAB_init 10 2 None True Torch_softmax False (1 / 10) s") auto
  show "MAB_init 10 2 None True Torch_softmax False (1 / 10) \<lparr>next_id = 0, free_elems = 100000\<rparr> = Inl TypeError"
    by (simp add: MAB_init_def nn_MultiheadAttention_def allocate_def fresh_def)
qed

theorem MAB_init_assertion_and_default_witness:
  "(3 :: int) \<noteq> 0 \<and> (10 :: int) mod 3 \<noteq> 0 \<and>
   MAB_init 10 3 (Some [10, 20, 10]) True Torch_softmax False (1 / 10) \<lparr>next_id = 0, free_elems = 100000\<rparr> = Inl AssertionError \<and>
   (2 :: int) \<noteq> 0 \<and> (10 :: int) mod 2 = 0 \<and>
   MAB_init 10 2 None True Torch_softmax False (1 / 10) \<lparr>next_id = 0, free_elems = 100000\<rparr> \<noteq> Inl AssertionError \<and>
   MAB_init 10 2 None True Torch_softmax False (1 / 10) \<lparr>next_id = 0, free_elems = 100000\<rparr> = Inl TypeError"
  using MAB_init_assertion_and_default
      [of 3 10 "Some [10, 20, 10]" True Torch_softmax False "1 / 10" "\<lparr>next_id = 0, free_elems = 100000\<rparr>"]
    MAB_init_assertion_and_default
      [of 2 10 None True Torch_softmax False "1 / 10" "\<lparr>next_id = 0, free_elems = 100000\<rparr>"]
  by simp

subsection \<open>Pooling, induced attention and the attention primitive\<close>

lemma new_parameter_result:
  "new_parameter sizes s = Inr (t, s') \<Longrightarrow>
   shape t = map nat sizes \<and> val t = ParamT (next_id s)"
  by (auto simp: new_parameter_def bindE_eq_Inr allocate_result)

lemma PMA_init_result:
  assumes "PMA_init e sc args s = Inr (m, s')"
  shows "MAB_ok (nat e) (PMA_mab m) \<and> shape (PMA_S m) = [1, nat sc, nat e] \<and>
         seed_count m = sc \<and> (\<exists>i. val (PMA_S m) = ParamT i)"
proof -
  from assms obtain mab s1 where
    a: "MAB_init_kwargs e args s = Inr (mab, s1)"
    by (cases "MAB_init_kwargs e args s") (auto simp: PMA_init_def)
  with assms obtain S s2 where
    b: "new_parameter [1, sc, e] s1 = Inr (S, s2)"
    and m: "m = \<lparr>seed_count = sc, PMA_mab = mab, PMA_S = S\<rparr>"
    by (cases "new_parameter [1, sc, e] s1") (auto simp: PMA_init_def)
  from new_parameter_result [OF b] MAB_init_kwargs_ok [OF a] m
  show ?thesis by simp
qed

text \<open>
  Claim C5. For a constructed pooling module and every batched input \<open>X\<close> of shape
  \<open>(B, n, E)\<close>, the forward pass repeats the learnable seed tensor \<open>B\<close> times along the
  batch axis and returns the attention block applied to these seeds and \<open>X\<close>; the set
  axis of the output has the configured seed count, whatever \<open>n\<close> is.
\<close>

theorem PMA_forward_seed_count:
  assumes init: "PMA_init e sc args s = Inr (m, s')"
    and X: "shape X = [B, n, nat e]"
  shows "\<exists>seeds out.
           tensor_repeat (PMA_S m) [B, 1, 1] = Inr seeds \<and>
           shape seeds = [B, nat sc, nat e] \<and>
           val seeds = RepeatT [B, 1, 1] (val (PMA_S m)) \<and>
           PMA_forward m X = MAB_forward (PMA_mab m) seeds X \<and>
           PMA_forward m X = Inr out \<and>
           shape out = [B, nat (seed_count m), nat e]"
proof -
  from PMA_init_result [OF init] have
    ok: "MAB_ok (nat e) (PMA_mab m)" and S: "shape (PMA_S m) = [1, nat sc, nat e]"
    and sc: "seed_count m = sc"
    by simp_all
  let ?seeds = "\<lparr>shape = [B, nat sc, nat e], val = RepeatT [B, 1, 1] (val (PMA_S m))\<rparr>"
  have sz: "tensor_size X 0 = Inr B"
    by (simp add: tensor_size_def wrap_dim_def X)
  have rp: "tensor_repeat (PMA_S m) [B, 1, 1] = Inr ?seeds"
    by (simp add: tensor_repeat_def S)
  have fw: "PMA_forward m X = MAB_forward (PMA_mab m) ?seeds X"
    by (simp only: PMA_forward_def sz rp bindE_Inr)
  have mab: "MAB_forward (PMA_mab m) ?seeds X =
               Inr \<lparr>shape = [B, nat sc, nat e],
                    val = MAB_value (PMA_mab m) (val ?seeds) (val X)\<rparr>"
    by (rule MAB_forward_batched [OF ok _ X]) simp
  show ?thesis
    using rp fw mab sc by simp
qed

theorem PMA_forward_seed_count_witness:
  "\<exists>m s' seeds out.
     PMA_init 4 3 \<lparr>arg_num_heads = Some 2, arg_ff_layers = Some [], arg_final_linear = None,
       arg_activation_function = None, arg_layer_norm = None, arg_dropout = None\<rparr>
       \<lparr>next_id = 0, free_elems = 100000\<rparr> = Inr (m, s') \<and>
     tensor_repeat (PMA_S m) [2, 1, 1] = Inr seeds \<and>
     shape seeds = [2, 3, 4] \<and>
     PMA_forward m \<lparr>shape = [2, 7, 4], val = InputT 0\<rparr> = Inr out \<and>
     shape out = [2, 3, 4]"
proof -
  let ?args = "\<lparr>arg_num_heads = Some 2, arg_ff_layers = Some [], arg_final_linear = None,
       arg_activation_function = None, arg_layer_norm = None, arg_dropout = None\<rparr>"
  obtain m s' where init: "PMA_init 4 3 ?args \<lparr>next_id = 0, free_elems = 100000\<rparr> = Inr (m, s')"
    by (simp add: PMA_init_def MAB_init_kwargs_def MAB_init_def nn_MultiheadAttention_def nn_LayerNorm_def
        nn_Dropout_def LinearNet_init_def nn_Linear_def new_parameter_def allocate_def
        fresh_def upt_conv_Cons)
  from PMA_init_result [OF init] have sc: "seed_count m = 3" by simp
  show ?thesis
    using init sc PMA_forward_seed_count [OF init, of "\<lparr>shape = [2, 7, 4], val = InputT 0\<rparr>" 2 7]
    by auto
qed

lemma IPAB_init_result:
  assumes "IPAB_init e args s = Inr (m, s')"
  shows "MAB_ok (nat e) (IPAB_mab1 m) \<and> MAB_ok (nat e) (IPAB_mab2 m)"
proof -
  from assms obtain mab1 s1 where
    a: "MAB_init_kwargs e args s = Inr (mab1, s1)"
    by (cases "MAB_init_kwargs e args s") (auto simp: IPAB_init_def)
  with assms obtain mab2 s2 where
    b: "MAB_init_kwargs e args s1 = Inr (mab2, s2)"
    and m: "m = \<lparr>IPAB_embed_dim = e, IPAB_mab1 = mab1, IPAB_mab2 = mab2\<rparr>"
    by (cases "MAB_init_kwargs e args s1") (auto simp: IPAB_init_def)
  from MAB_init_kwargs_ok [OF a] MAB_init_kwargs_ok [OF b] m
  show ?thesis by simp
qed

lemma IPAB_forward_ok:
  assumes ok: "MAB_ok E (IPAB_mab1 m)" "MAB_ok E (IPAB_mab2 m)"
    and X: "shape X = [B, n, E]" and Z: "shape Z = [B, E]"
  shows "\<exists>out Z'. IPAB_forward m X Z = Inr (out, Z') \<and> shape out = [B, n, E] \<and>
           shape Z' = [B, E]"
proof -
  let ?Zu = "\<lparr>shape = [B, 1, E], val = UnsqueezeT 1 (val Z)\<rparr>"
  let ?Zn = "\<lparr>shape = [B, 1, E], val = MAB_value (IPAB_mab1 m) (val ?Zu) (val X)\<rparr>"
  let ?out = "\<lparr>shape = [B, n, E], val = MAB_value (IPAB_mab2 m) (val X) (val ?Zn)\<rparr>"
  let ?Zs = "\<lparr>shape = [B, E], val = SqueezeT 1 (val ?Zn)\<rparr>"
  have u: "unsqueeze Z 1 = Inr ?Zu"
    by (simp add: unsqueeze_def wrap_dim_def Z)
  have m1: "MAB_forward (IPAB_mab1 m) ?Zu X = Inr ?Zn"
    by (rule MAB_forward_batched [OF ok(1) _ X]) simp
  have m2: "MAB_forward (IPAB_mab2 m) X ?Zn = Inr ?out"
    by (rule MAB_forward_batched [OF ok(2) X]) simp
  have sq: "squeeze ?Zn 1 = Inr ?Zs"
    by (simp add: squeeze_def wrap_dim_def)
  have "IPAB_forward m X Z = Inr (?out, ?Zs)"
    by (simp only: IPAB_forward_def u m1 m2 sq bindE_Inr)
  then show ?thesis by simp
qed

lemma IPAB_chain_ok:
  assumes ok: "MAB_ok E (IPAB_mab1 m)" "MAB_ok E (IPAB_mab2 m)"
    and X: "shape X = [B, n, E]"
  shows "shape Z = [B, E] \<Longrightarrow> \<exists>Zk. IPAB_chain m X k Z = Inr Zk \<and> shape Zk = [B, E]"
proof (induction k arbitrary: Z)
  case 0
  then show ?case by simp
next
  case (Suc k)
  from IPAB_forward_ok [OF ok X Suc.prems] obtain out Z' where
    f: "IPAB_forward m X Z = Inr (out, Z')" and Z': "shape Z' = [B, E]"
    by blast
  from Suc.IH [OF Z'] show ?case
    by (simp add: f)
qed

text \<open>
  Claim C6. For a constructed module, a batched input \<open>X\<close> of shape \<open>(B, n, E)\<close> and a
  latent vector \<open>Z\<close> of shape \<open>(B, E)\<close>, the forward pass returns a pair whose first
  component has the shape of \<open>X\<close> and whose second has the shape of \<open>Z\<close>; any number
  of chained calls with the same \<open>X\<close> and the evolving latent vector returns without an
  exception.
\<close>

theorem IPAB_forward_shapes:
  assumes init: "IPAB_init e args s = Inr (m, s')"
    and X: "shape X = [B, n, nat e]" and Z: "shape Z = [B, nat e]"
  shows "(\<exists>out Z'. IPAB_forward m X Z = Inr (out, Z') \<and> shape out = shape X \<and>
            shape Z' = shape Z) \<and>
         (\<forall>k. \<exists>Zk. IPAB_chain m X k Z = Inr Zk \<and> shape Zk = shape Z)"
proof -
  from IPAB_init_result [OF init] have
    ok: "MAB_ok (nat e) (IPAB_mab1 m)" "MAB_ok (nat e) (IPAB_mab2 m)"
    by simp_all
  show ?thesis
    using IPAB_forward_ok [OF ok X Z] IPAB_chain_ok [OF ok X Z] X Z by simp
qed

theorem IPAB_forward_shapes_witness:
  "\<exists>m s'.
     IPAB_init 10 \<lparr>arg_num_heads = Some 2, arg_ff_layers = Some [10, 20, 10],
       arg_final_linear = None, arg_activation_function = None, arg_layer_norm = None,
       arg_dropout = None\<rparr> \<lparr>next_id = 0, free_elems = 100000\<rparr> = Inr (m, s') \<and>
     (\<exists>out Z'. IPAB_forward m \<lparr>shape = [16, 30, 10], val = InputT 0\<rparr>
                  \<lparr>shape = [16, 10], val = InputT 1\<rparr> = Inr (out, Z') \<and>
        shape out = [16, 30, 10] \<and> shape Z' = [16, 10]) \<and>
     (\<exists>Zk. IPAB_chain m \<lparr>shape = [16, 30, 10], val = InputT 0\<rparr> 3
              \<lparr>shape = [16, 10], val = InputT 1\<rparr> = Inr Zk \<and> shape Zk = [16, 10])"
proof -
  let ?args = "\<lparr>arg_num_heads = Some 2, arg_ff_layers = Some [10, 20, 10],
       arg_final_linear = None, arg_activation_function = None, arg_layer_norm = None,
       arg_dropout = None\<rparr>"
  obtain m s' where init: "IPAB_init 10 ?args \<lparr>next_id = 0, free_elems = 100000\<rparr> = Inr (m, s')"
    by (simp add: IPAB_init_def MAB_init_kwargs_def MAB_init_def nn_MultiheadAttention_def nn_LayerNorm_def
        nn_Dropout_def LinearNet_init_def nn_Linear_def new_parameter_def allocate_def
        fresh_def upt_conv_Cons)
  show ?thesis
    using init IPAB_forward_shapes [OF init,
        of "\<lparr>shape = [16, 30, 10], val = InputT 0\<rparr>" 16 30 "\<lparr>shape = [16, 10], val = InputT 1\<rparr>"]
    by auto
qed

lemma ISAB_init_result:
  assumes "ISAB_init mi e args s = Inr (m, s')"
  shows "MAB_ok (nat e) (ISAB_mab1 m) \<and> MAB_ok (nat e) (ISAB_mab2 m) \<and>
         shape (ISAB_I m) = [nat mi, nat e]"
proof -
  from assms obtain mab1 s1 where
    a: "MAB_init_kwargs e args s = Inr (mab1, s1)"
    by (cases "MAB_init_kwargs e args s") (auto simp: ISAB_init_def)
  with assms obtain mab2 s2 where
    b: "MAB_init_kwargs e args s1 = Inr (mab2, s2)"
    by (cases "MAB_init_kwargs e args s1") (auto simp: ISAB_init_def)
  with assms a obtain I s3 where
    c: "new_parameter [mi, e] s2 = Inr (I, s3)"
    and m: "m = \<lparr>ISAB_m = mi, ISAB_mab1 = mab1, ISAB_mab2 = mab2, ISAB_I = I\<rparr>"
    by (cases "new_parameter [mi, e] s2") (auto simp: ISAB_init_def)
  from new_parameter_result [OF c] MAB_init_kwargs_ok [OF a] MAB_init_kwargs_ok [OF b] m
  show ?thesis by simp
qed

text \<open>
  Claim C3 does not hold of the code. The forward pass hands the inducing points, a
  tensor of shape \<open>(m_induce, E)\<close>, to the first attention block as they are, where
  \<^verbatim>\<open>PMA.forward\<close> repeats its seeds along the batch axis; for every batched (three-axis)
  input the attention layer meets a two-axis query with a three-axis key and raises.
\<close>

theorem ISAB_forward_batched_raises:
  assumes init: "ISAB_init mi e args s = Inr (m, s')"
    and X: "length (shape X) = 3"
  shows "ISAB_forward m X = Inl AssertionError"
proof -
  from ISAB_init_result [OF init] have I: "shape (ISAB_I m) = [nat mi, nat e]"
    by simp
  have "MultiheadAttention_forward (attention (ISAB_mab1 m)) (ISAB_I m) X X = Inl AssertionError"
    by (simp add: MultiheadAttention_forward_def I X)
  then show ?thesis
    by (simp add: ISAB_forward_def MAB_forward_def)
qed

theorem ISAB_forward_batched_raises_witness:
  "\<exists>m s'.
     ISAB_init 2 4 \<lparr>arg_num_heads = Some 2, arg_ff_layers = Some [],
       arg_final_linear = None, arg_activation_function = None, arg_layer_norm = None,
       arg_dropout = None\<rparr> \<lparr>next_id = 0, free_elems = 100000\<rparr> = Inr (m, s') \<and>
     ISAB_forward m \<lparr>shape = [3, 5, 4], val = InputT 0\<rparr> = Inl AssertionError"
proof -
  let ?args = "\<lparr>arg_num_heads = Some 2, arg_ff_layers = Some [],
       arg_final_linear = None, arg_activation_function = None, arg_layer_norm = None,
       arg_dropout = None\<rparr>"
  obtain m s' where init: "ISAB_init 2 4 ?args \<lparr>next_id = 0, free_elems = 100000\<rparr> = Inr (m, s')"
    by (simp add: ISAB_init_def MAB_init_kwargs_def MAB_init_def nn_MultiheadAttention_def nn_LayerNorm_def
        nn_Dropout_def LinearNet_init_def nn_Linear_def new_parameter_def allocate_def
        fresh_def upt_conv_Cons)
  show ?thesis
    using init ISAB_forward_batched_raises [OF init, of "\<lparr>shape = [3, 5, 4], val = InputT 0\<rparr>"]
    by auto
qed

lemma MAB_forward_unbatched:
  assumes "MAB_ok E m" "shape X = [n, E]" "shape Y = [k, E]"
  shows "MAB_forward m X Y = Inr \<lparr>shape = [n, E], val = MAB_value m (val X) (val Y)\<rparr>"
proof -
  have "embed_dim (attention m) = E" using assms(1) by (simp add: MAB_ok_def)
  from MultiheadAttention_forward_unbatched [OF this assms(2,3)]
  show ?thesis
    using MAB_forward_ok [OF assms(1), of X Y] assms(2) by simp
qed

lemma ISAB_forward_unbatched:
  assumes init: "ISAB_init mi e args s = Inr (m, s')"
    and X: "shape X = [n, nat e]"
  shows "\<exists>out. ISAB_forward m X = Inr out \<and> shape out = shape X"
proof -
  from ISAB_init_result [OF init] have
    ok: "MAB_ok (nat e) (ISAB_mab1 m)" "MAB_ok (nat e) (ISAB_mab2 m)"
    and I: "shape (ISAB_I m) = [nat mi, nat e]"
    by simp_all
  let ?H = "\<lparr>shape = [nat mi, nat e],
             val = MAB_value (ISAB_mab1 m) (val (ISAB_I m)) (val X)\<rparr>"
  have m1: "MAB_forward (ISAB_mab1 m) (ISAB_I m) X = Inr ?H"
    by (rule MAB_forward_unbatched [OF ok(1) I X])
  have m2: "MAB_forward (ISAB_mab2 m) X ?H =
              Inr \<lparr>shape = [n, nat e], val = MAB_value (ISAB_mab2 m) (val X) (val ?H)\<rparr>"
    by (rule MAB_forward_unbatched [OF ok(2) X]) simp
  show ?thesis
    by (simp add: ISAB_forward_def m1 m2 X)
qed

lemma bindE_raises:
  "(\<And>x. \<exists>e. f x = Inl e) \<Longrightarrow> \<exists>e. bindE r f = Inl e"
  by (cases r) simp_all

lemma Attention_forward_scores:
  assumes Q: "shape Q = [B, n, d]" and K: "shape K = [B, k, d]"
  shows "Attention_forward (Attention_init f) Q K V =
           bindE (call1 f \<lparr>shape = [B, n, k],
                    val = DivSqrtT (MatmulT (val Q) (TransposeT (- 2) (- 1) (val K))) d\<rparr>)
             (\<lambda>logits. matmul logits V)"
proof -
  let ?Kt = "\<lparr>shape = [B, d, k], val = TransposeT (- 2) (- 1) (val K)\<rparr>"
  let ?QK = "\<lparr>shape = [B, n, k], val = MatmulT (val Q) (val ?Kt)\<rparr>"
  have sz: "tensor_size Q (- 1) = Inr d"
    by (simp add: tensor_size_def wrap_dim_def Q)
  have tr: "transpose_dims K (- 2) (- 1) = Inr ?Kt"
    by (simp add: transpose_dims_def wrap_dim_def K)
  have mm: "matmul Q ?Kt = Inr ?QK"
    by (simp add: matmul_def Q broadcast_same)
  have dv: "div_sqrt ?QK d =
              \<lparr>shape = [B, n, k],
               val = DivSqrtT (MatmulT (val Q) (TransposeT (- 2) (- 1) (val K))) d\<rparr>"
    by (simp add: div_sqrt_def)
  show ?thesis
    by (simp only: Attention_forward_def sz tr mm dv bindE_Inr Let_def Attention_init_def
        Attention.simps)
qed

lemma Attention_forward_injected_softmax:
  assumes Q: "shape Q = [B, n, d]" and K: "shape K = [B, k, d]" and V: "shape V = [B, k, dv]"
  shows "Attention_forward (Attention_init (Function1 (\<lambda>x. torch_softmax x (Some (- 1))))) Q K V =
           Inr \<lparr>shape = [B, n, dv],
                val = MatmulT
                        (SoftmaxT (- 1)
                           (DivSqrtT (MatmulT (val Q) (TransposeT (- 2) (- 1) (val K))) d))
                        (val V)\<rparr>"
  unfolding Attention_forward_scores [OF Q K]
  by (simp add: call1_def torch_softmax_def wrap_dim_def matmul_def V broadcast_same)

text \<open>
  Claim C2 does not hold of the code for the default normalisation. The default
  \<^verbatim>\<open>torch.softmax\<close> is called with the scores alone, without the axis it requires:
  the forward pass of a default \<^verbatim>\<open>Attention()\<close> returns an exception for all inputs,
  the \<open>TypeError\<close> of that call for inputs whose shapes fit. With a normalisation
  function of one argument injected the result is as claimed
  (\<open>Attention_forward_injected_softmax\<close>).
\<close>

theorem Attention_forward_default_raises:
  "(\<exists>err. Attention_forward (Attention_init Torch_softmax) Q K V = Inl err) \<and>
   Attention_forward (Attention_init Torch_softmax)
     \<lparr>shape = [2, 3, 4], val = InputT 0\<rparr> \<lparr>shape = [2, 5, 4], val = InputT 1\<rparr>
     \<lparr>shape = [2, 5, 7], val = InputT 2\<rparr> = Inl TypeError"
proof
  have c: "call1 (Attention_activation_function (Attention_init Torch_softmax)) x = Inl TypeError"
    for x
    by (simp add: Attention_init_def call1_def torch_softmax_def)
  show "\<exists>err. Attention_forward (Attention_init Torch_softmax) Q K V = Inl err"
    unfolding Attention_forward_def Let_def
    by (rule bindE_raises, rule bindE_raises, rule bindE_raises) (simp add: c)
  show "Attention_forward (Attention_init Torch_softmax)
     \<lparr>shape = [2, 3, 4], val = InputT 0\<rparr> \<lparr>shape = [2, 5, 4], val = InputT 1\<rparr>
     \<lparr>shape = [2, 5, 7], val = InputT 2\<rparr> = Inl TypeError"
    by (subst Attention_forward_scores [of _ 2 3 4 _ 5])
       (simp_all add: call1_def torch_softmax_def)
qed

end
